theory Spec2Isabelle
  imports Complex_Main "HOL-Library.Word"
begin

section \<open>Vectors (Vector.hpp, the second half of part\_000)\<close>

text \<open>
  A C++ \<open>float\<close> is modelled as a real number: rounding, overflow and the IEEE
  infinities have no counterpart here. The NaN of \<open>0 / 0\<close> in \<open>normalize\<close>,
  which the program produces under total internal reflection, is made explicit below.
  The fields \<open>x\<close>, \<open>y\<close>, \<open>z\<close> of the two vector classes are the
  selectors \<open>vx\<close>, \<open>vy\<close>, \<open>vz\<close> and \<open>ux\<close>, \<open>uy\<close>.
\<close>

datatype Vector3f = Vector3f (vx: real) (vy: real) (vz: real)

datatype Vector2f = Vector2f (ux: real) (uy: real)

text \<open>
  \<open>Vector3f(float xx)\<close> sets all three fields to \<open>xx\<close>; the program only uses
  it at 0 (\<open>Vector3f lightAmt = 0\<close>, \<open>return 0\<close>, \<open>eye_pos(0)\<close>). The
  operators \<open>+\<close>, \<open>-\<close>, unary \<open>-\<close> and \<open>*\<close> between two vectors work
  field by field.
\<close>

instantiation Vector3f :: "{zero, plus, minus, uminus, times}"
begin

definition zero_Vector3f :: Vector3f where
  "zero_Vector3f = Vector3f 0 0 0"

definition plus_Vector3f :: "Vector3f \<Rightarrow> Vector3f \<Rightarrow> Vector3f" where
  "plus_Vector3f a b = Vector3f (vx a + vx b) (vy a + vy b) (vz a + vz b)"

definition minus_Vector3f :: "Vector3f \<Rightarrow> Vector3f \<Rightarrow> Vector3f" where
  "minus_Vector3f a b = Vector3f (vx a - vx b) (vy a - vy b) (vz a - vz b)"

definition uminus_Vector3f :: "Vector3f \<Rightarrow> Vector3f" where
  "uminus_Vector3f a = Vector3f (- vx a) (- vy a) (- vz a)"

definition times_Vector3f :: "Vector3f \<Rightarrow> Vector3f \<Rightarrow> Vector3f" where
  "times_Vector3f a b = Vector3f (vx a * vx b) (vy a * vy b) (vz a * vz b)"

instance ..

end

text \<open>\<open>operator*(const float &r)\<close>, in both argument orders, and \<open>operator/\<close>.\<close>

definition mul_scalar :: "Vector3f \<Rightarrow> real \<Rightarrow> Vector3f" where
  "mul_scalar v r = Vector3f (vx v * r) (vy v * r) (vz v * r)"

definition div_scalar :: "Vector3f \<Rightarrow> real \<Rightarrow> Vector3f" where
  "div_scalar v r = Vector3f (vx v / r) (vy v / r) (vz v / r)"

definition dotProduct :: "Vector3f \<Rightarrow> Vector3f \<Rightarrow> real" where
  "dotProduct a b = vx a * vx b + vy a * vy b + vz a * vz b"

definition length_vec :: "Vector3f \<Rightarrow> real" where
  "length_vec a = sqrt (vx a * vx a + vy a * vy a + vz a * vz a)"

text \<open>
  \<open>normalize(v)\<close> is \<open>v / length(v)\<close>. For the zero vector every field is
  \<open>0.0f / 0.0f\<close>, which is NaN in C++ (HOL's \<open>0 / 0\<close> would be 0). A direction
  is therefore a \<open>Vector3f option\<close>: \<open>None\<close> is the all-NaN vector.
\<close>

definition normalize_vec :: "Vector3f \<Rightarrow> Vector3f option" where
  "normalize_vec v =
     (if length_vec v = 0 then None else Some (div_scalar v (length_vec v)))"

section \<open>Scalar helpers\<close>

text \<open>
  Modelled from the spec: \<open>clamp\<close> is declared in a header that is not among the
  sources (global.hpp). The spec writes \<open>clamp(I\<cdot>N, -1, 1)\<close> and
  \<open>clamp(color, 0, 1)\<close>; the calls in the sources pass the bounds first,
  \<open>clamp(lo, hi, v)\<close>.
\<close>

definition clamp :: "real \<Rightarrow> real \<Rightarrow> real \<Rightarrow> real" where
  "clamp lo hi v = max lo (min hi v)"

text \<open>
  \<open>powf(x, y)\<close> of the C library, for the bases \<open>x \<ge> 0\<close> the program passes:
  \<open>powf(x, 0) = 1\<close> also at \<open>x = 0\<close>, where HOL's \<open>0 powr 0\<close> is 0. (At
  \<open>x = 0\<close> and \<open>y < 0\<close> the C function returns infinity, which a real cannot be.)
\<close>

definition powf :: "real \<Rightarrow> real \<Rightarrow> real" where
  "powf b e = (if e = 0 then 1 else b powr e)"

section \<open>Reflection, refraction, Fresnel (Renderer.hpp, lines 16--33)\<close>

text \<open>
  \<open>return 0\<close> in \<open>refract\<close> is the zero vector. \<open>1 / ior\<close> is the program's
  value for \<open>ior \<noteq> 0\<close>; at \<open>ior = 0\<close> the program divides by zero, which gives
  an infinity in C++ and 0 in HOL, and so does \<open>fresnel\<close> at \<open>ior = -1\<close>. What
  is proved below of the values of \<open>refract\<close> and \<open>fresnel\<close> is about the
  program at the other values of \<open>ior\<close>.
\<close>

definition reflect :: "Vector3f \<Rightarrow> Vector3f \<Rightarrow> Vector3f" where
  "reflect I N = I - mul_scalar N (2 * dotProduct I N)"

definition refract :: "Vector3f \<Rightarrow> Vector3f \<Rightarrow> real \<Rightarrow> Vector3f" where
  "refract I N ior =
     (let cosi = \<bar>clamp (- 1) 1 (dotProduct I N)\<bar>;
          t = 1 - 1 / ior * 1 / ior * (1 - cosi * cosi)
      in if t < 0 then 0
         else let coso = sqrt t
              in mul_scalar I (1 / ior) + mul_scalar N (1 / ior * cosi - coso))"

definition fresnel :: "Vector3f \<Rightarrow> Vector3f \<Rightarrow> real \<Rightarrow> real" where
  "fresnel I N ior =
     (let cosi = \<bar>clamp (- 1) 1 (dotProduct I N)\<bar>;
          R0 = ((1 - ior) / (1 + ior)) ^ 2
      in R0 + (1 - R0) * (1 - cosi) ^ 5)"

section \<open>Scene data\<close>

text \<open>
  Modelled from the spec: \<open>Object\<close>, \<open>Light\<close> and \<open>Scene\<close> are declared in
  Scene.hpp and the headers it includes, which are not among the sources. Their members
  are the ones the sources read, typed as the spec's data model and external
  interfaces describe them: a primitive's \<open>intersect\<close> reports either nothing or a
  distance, a local index and uv coordinates (the C++ out-parameters), its
  \<open>getSurfaceProperties\<close> returns the normal and the surface coordinates. The
  material kind has three variants; \<open>castRay\<close> sends every kind but the two
  reflective ones to its default branch.
\<close>

datatype MaterialType = DIFFUSE_AND_GLOSSY | REFLECTION_AND_REFRACTION | REFLECTION

record Object =
  materialType :: MaterialType
  ior :: real
  Kd :: real
  Ks :: real
  specularExponent :: real
  intersect :: "Vector3f \<Rightarrow> Vector3f \<Rightarrow> (real \<times> 32 word \<times> Vector2f) option"
  getSurfaceProperties ::
    "Vector3f \<Rightarrow> Vector3f \<Rightarrow> 32 word \<Rightarrow> Vector2f \<Rightarrow> Vector3f \<times> Vector2f"
  evalDiffuseColor :: "Vector2f \<Rightarrow> Vector3f"

record Light =
  position :: Vector3f
  intensity :: Vector3f

record Scene =
  width :: int
  height :: int
  fov :: real
  backgroundColor :: Vector3f
  maxDepth :: int
  epsilon :: real
  objects :: "Object list"
  lights :: "Light list"

section \<open>The intersector (Renderer.hpp, lines 5--12 and 35--54)\<close>

text \<open>
  \<open>kInfinity\<close> is \<open>std::numeric_limits<float>::max()\<close>, the largest finite
  \<open>float\<close>.
\<close>

definition kInfinity :: real where
  "kInfinity = 2 ^ 128 - 2 ^ 104"

text \<open>
  \<open>hit_obj\<close> is a non-owning pointer to an object of the scene; objects are never
  written during rendering, so the record holds the object pointed to.
\<close>

record hit_payload =
  tNear :: real
  index :: "32 word"
  uv :: Vector2f
  hit_obj :: Object

text \<open>
  The loop of \<open>trace\<close> over the objects, with its two variables as arguments:
  \<open>best\<close> is the local variable \<open>tNear\<close> (the name is taken by the field of
  \<open>hit_payload\<close>), \<open>payload\<close> the optional payload.
\<close>

fun trace_loop ::
  "Vector3f \<Rightarrow> Vector3f \<Rightarrow> Object list \<Rightarrow> real \<Rightarrow> hit_payload option
     \<Rightarrow> hit_payload option" where
  "trace_loop orig dir [] best payload = payload"
| "trace_loop orig dir (object # rest) best payload =
     (case intersect object orig dir of
        None \<Rightarrow> trace_loop orig dir rest best payload
      | Some (tNearK, indexK, uvK) \<Rightarrow>
          if tNearK < best
          then trace_loop orig dir rest tNearK
                 (Some \<lparr>tNear = tNearK, index = indexK, uv = uvK, hit_obj = object\<rparr>)
          else trace_loop orig dir rest best payload)"

definition trace :: "Vector3f \<Rightarrow> Vector3f \<Rightarrow> Object list \<Rightarrow> hit_payload option" where
  "trace orig dir objs = trace_loop orig dir objs kInfinity None"

section \<open>The integrator (Renderer.hpp, lines 56--142)\<close>

text \<open>
  A direction that is the all-NaN vector compares false with everything, so
  \<open>dotProduct(direction, N) < 0\<close> is false for it. What \<open>trace\<close> does with such
  a direction is decided by the primitives' intersection code, on values that are not
  real numbers: where \<open>castRay\<close> would trace a NaN direction, the model stops with
  \<open>NaNDirection\<close>. \<open>IntOverflow\<close> stands for the undefined behaviour of
  \<open>depth + 1\<close> at the largest \<open>int\<close>, \<open>INT_MAX\<close>.
\<close>

datatype error = NaNDirection | IntOverflow

definition INT_MAX :: int where
  "INT_MAX = 2147483647"

definition dot_negative :: "Vector3f option \<Rightarrow> Vector3f \<Rightarrow> bool" where
  "dot_negative dir N = (case dir of None \<Rightarrow> False | Some d \<Rightarrow> dotProduct d N < 0)"

text \<open>
  The body of the loop over the lights in the default branch (lines 113--130); the
  pair is \<open>(lightAmt, specularColor)\<close>. For a light at the hit point
  \<open>lightDir\<close> is the NaN vector, and the source goes on with it:
  \<open>std::max(0.f, x)\<close> is \<open>0.f\<close> for a NaN \<open>x\<close>, so \<open>LdotN\<close> and the base
  of \<open>powf\<close> are 0, and \<open>lightDistance2\<close> is 0, so no distance \<open>trace\<close>
  may return has its square below it and \<open>inShadow\<close> is false.
\<close>

definition light_step ::
  "Scene \<Rightarrow> Object \<Rightarrow> Vector3f \<Rightarrow> Vector3f \<Rightarrow> Vector3f \<Rightarrow> Vector3f \<Rightarrow> Light
     \<Rightarrow> Vector3f \<times> Vector3f \<Rightarrow> Vector3f \<times> Vector3f" where
  "light_step scene obj dir hitPoint N shadowPointOrig light acc =
     (let lightAmt = fst acc;
          specularColor = snd acc;
          lightDir0 = position light - hitPoint;
          lightDistance2 = dotProduct lightDir0 lightDir0;
          lightDir = normalize_vec lightDir0;
          LdotN = (case lightDir of
                     None \<Rightarrow> 0
                   | Some L \<Rightarrow> max 0 (dotProduct L N));
          inShadow = (case lightDir of
                        None \<Rightarrow> False
                      | Some L \<Rightarrow>
                          (case trace shadowPointOrig L (objects scene) of
                             None \<Rightarrow> False
                           | Some r \<Rightarrow> tNear r * tNear r < lightDistance2));
          lightAmt' = lightAmt +
             (if inShadow then 0 else mul_scalar (intensity light) LdotN);
          specularBase = (case lightDir of
                            None \<Rightarrow> 0
                          | Some L \<Rightarrow> max 0 (- dotProduct (reflect (- L) N) dir));
          specularColor' = specularColor +
             mul_scalar (intensity light) (powf specularBase (specularExponent obj))
      in (lightAmt', specularColor'))"

fun light_loop ::
  "Scene \<Rightarrow> Object \<Rightarrow> Vector3f \<Rightarrow> Vector3f \<Rightarrow> Vector3f \<Rightarrow> Vector3f \<Rightarrow> Light list
     \<Rightarrow> Vector3f \<times> Vector3f \<Rightarrow> Vector3f \<times> Vector3f" where
  "light_loop scene obj dir hitPoint N shadowPointOrig [] acc = acc"
| "light_loop scene obj dir hitPoint N shadowPointOrig (light # rest) acc =
     light_loop scene obj dir hitPoint N shadowPointOrig rest
       (light_step scene obj dir hitPoint N shadowPointOrig light acc)"

text \<open>The default branch of the switch (lines 99--137).\<close>

definition phong ::
  "Scene \<Rightarrow> Object \<Rightarrow> Vector3f \<Rightarrow> Vector3f \<Rightarrow> Vector3f \<Rightarrow> Vector2f \<Rightarrow> Vector3f" where
  "phong scene obj dir hitPoint N st =
     (let shadowPointOrig = (if dotProduct dir N < 0
                             then hitPoint + mul_scalar N (epsilon scene)
                             else hitPoint - mul_scalar N (epsilon scene));
          acc = light_loop scene obj dir hitPoint N shadowPointOrig (lights scene) (0, 0);
          lightAmt = fst acc;
          specularColor = snd acc
      in mul_scalar (lightAmt * evalDiffuseColor obj st) (Kd obj)
         + mul_scalar specularColor (Ks obj))"

text \<open>
  \<open>castRay\<close>. The last case is the \<open>default\<close> of the switch. The two
  recursive calls of the first case are made one after the other, whatever the first
  returns. \<open>depth\<close> is a C++ \<open>int\<close>, modelled as an integer: the argument
  \<open>depth + 1\<close> of a recursive call overflows when \<open>depth\<close> is \<open>INT_MAX\<close>,
  which can only be at \<open>maxDepth = INT_MAX\<close>. That is undefined behaviour; the
  model has the call at the integer \<open>depth + 1\<close>, which no \<open>int\<close> holds, and
  gives such an evaluation the result \<open>IntOverflow\<close>.
\<close>

function castRay :: "Vector3f \<Rightarrow> Vector3f option \<Rightarrow> Scene \<Rightarrow> int \<Rightarrow> error + Vector3f" where
  "castRay orig dir scene depth =
     (if depth > maxDepth scene then Inr (Vector3f 0 0 0)
      else case dir of
        None \<Rightarrow> Inl NaNDirection
      | Some d \<Rightarrow>
         (case trace orig d (objects scene) of
            None \<Rightarrow> Inr (backgroundColor scene)
          | Some payload \<Rightarrow>
             (let hitPoint = orig + mul_scalar d (tNear payload);
                  (N, st) = getSurfaceProperties (hit_obj payload) hitPoint d
                              (index payload) (uv payload)
              in case materialType (hit_obj payload) of
                   REFLECTION_AND_REFRACTION \<Rightarrow>
                     (let reflectionDirection = normalize_vec (reflect d N);
                          refractionDirection =
                            normalize_vec (refract d N (ior (hit_obj payload)));
                          reflectionRayOrig =
                            (if dot_negative reflectionDirection N
                             then hitPoint - mul_scalar N (epsilon scene)
                             else hitPoint + mul_scalar N (epsilon scene));
                          refractionRayOrig =
                            (if dot_negative refractionDirection N
                             then hitPoint - mul_scalar N (epsilon scene)
                             else hitPoint + mul_scalar N (epsilon scene));
                          reflectionColor =
                            castRay reflectionRayOrig reflectionDirection scene (depth + 1);
                          refractionColor =
                            castRay refractionRayOrig refractionDirection scene (depth + 1);
                          kr = fresnel d N (ior (hit_obj payload))
                      in if depth = INT_MAX then Inl IntOverflow
                         else case reflectionColor of
                           Inl e \<Rightarrow> Inl e
                         | Inr reflC \<Rightarrow>
                            (case refractionColor of
                               Inl e \<Rightarrow> Inl e
                             | Inr refrC \<Rightarrow>
                                 Inr (mul_scalar reflC kr + mul_scalar refrC (1 - kr))))
                 | REFLECTION \<Rightarrow>
                     (let kr = fresnel d N (ior (hit_obj payload));
                          reflectionDirection = reflect d N;
                          reflectionRayOrig =
                            (if dotProduct reflectionDirection N < 0
                             then hitPoint + mul_scalar N (epsilon scene)
                             else hitPoint - mul_scalar N (epsilon scene));
                          reflectionColor =
                            castRay reflectionRayOrig (Some reflectionDirection) scene
                              (depth + 1)
                      in if depth = INT_MAX then Inl IntOverflow
                         else case reflectionColor of
                           Inl e \<Rightarrow> Inl e
                         | Inr reflC \<Rightarrow> Inr (mul_scalar reflC kr))
                 | DIFFUSE_AND_GLOSSY \<Rightarrow>
                     Inr (phong scene (hit_obj payload) d hitPoint N st))))"
  by pat_completeness auto
termination
  by (relation "measure (\<lambda>(orig, dir, scene, depth). nat (maxDepth scene + 1 - depth))") auto

declare castRay.simps [simp del]

section \<open>Writing the image\<close>

text \<open>
  \<open>(char)f\<close> truncates the float toward zero. C++ defines the conversion only when
  the truncated value fits \<open>char\<close>, and compilers differ beyond that. The byte
  written is modelled as the low eight bits of the truncated value: the value the
  language defines wherever it defines one, and what a conversion through a 32-bit
  integer yields elsewhere.
\<close>

definition float_to_char :: "real \<Rightarrow> 8 word" where
  "float_to_char f = word_of_int (if f < 0 then \<lceil>f\<rceil> else \<lfloor>f\<rfloor>)"

text \<open>
  What becomes of the output file: written, with the two numbers of its header line
  and its pixel bytes; an exception thrown to the caller; a null \<open>FILE*\<close> handed
  to \<open>fprintf\<close>, which is undefined behaviour; or an out-of-range read of the
  first row.
\<close>

datatype file_outcome =
    FileWritten int int "8 word list"
  | Thrown string
  | NullStream
  | NoFirstRow

subsection \<open>Renderer.hpp, lines 198--208\<close>

text \<open>
  The three bytes of one framebuffer entry, and the saving of the framebuffer;
  \<open>fopen_ok\<close> says whether \<open>fopen\<close> returned a stream. The result of
  \<open>fopen\<close> is not tested before it is used.
\<close>

definition color_bytes :: "Vector3f \<Rightarrow> 8 word list" where
  "color_bytes c =
     [float_to_char (255 * clamp 0 1 (vx c)),
      float_to_char (255 * clamp 0 1 (vy c)),
      float_to_char (255 * clamp 0 1 (vz c))]"

definition save_framebuffer :: "bool \<Rightarrow> Scene \<Rightarrow> Vector3f list \<Rightarrow> file_outcome" where
  "save_framebuffer fopen_ok scene framebuffer =
     (if fopen_ok
      then FileWritten (width scene) (height scene)
             (concat (map color_bytes
                (take (nat (height scene * width scene)) framebuffer)))
      else NullStream)"

subsection \<open>The second renderer (part\_000, lines 144--182)\<close>

text \<open>
  This \<open>Render\<close> stores \<open>255 * castRay(...)\<close> in a framebuffer of rows and
  writes each field with \<open>(char)\<close>, the last row first. \<open>can_open\<close> says
  whether the stream opens. \<open>write_ppm_header\<close> prints its second parameter before
  its first; \<open>Render\<close> passes the number of rows as the first. Every row is
  written up to the length of the first row; the loop of \<open>write_ppm_data\<close> does
  not run on a framebuffer without rows, and \<open>Render\<close>, which reads
  \<open>frame_buffer[0]\<close> for the header, is undefined on one (\<open>NoFirstRow\<close>).
\<close>

definition stored_color :: "Vector3f \<Rightarrow> Vector3f" where
  "stored_color c = mul_scalar c 255"

definition field_bytes :: "Vector3f \<Rightarrow> 8 word list" where
  "field_bytes v = [float_to_char (vx v), float_to_char (vy v), float_to_char (vz v)]"

definition write_ppm_header :: "bool \<Rightarrow> int \<Rightarrow> int \<Rightarrow> string + int \<times> int" where
  "write_ppm_header can_open w h =
     (if \<not> can_open then Inl ''write header error:file cannot open'' else Inr (h, w))"

definition write_ppm_data :: "bool \<Rightarrow> Vector3f list list \<Rightarrow> string + 8 word list" where
  "write_ppm_data can_open frame_buffer =
     (if \<not> can_open then Inl ''write header error:file cannot open''
      else case frame_buffer of
             [] \<Rightarrow> Inr []
           | row0 # _ \<Rightarrow>
               Inr (concat (map (\<lambda>row. concat (map field_bytes (take (length row0) row)))
                      (rev frame_buffer))))"

definition write_image :: "bool \<Rightarrow> Vector3f list list \<Rightarrow> file_outcome" where
  "write_image can_open frame_buffer =
     (case frame_buffer of
        [] \<Rightarrow> NoFirstRow
      | row0 # _ \<Rightarrow>
          (case write_ppm_header can_open (int (length frame_buffer)) (int (length row0)) of
             Inl msg \<Rightarrow> Thrown msg
           | Inr (a, b) \<Rightarrow>
               (case write_ppm_data can_open frame_buffer of
                  Inl msg \<Rightarrow> Thrown msg
                | Inr bytes \<Rightarrow> FileWritten a b bytes)))"

section \<open>Example scenes\<close>

text \<open>
  An unbounded horizontal plane at height \<open>h\<close>, hit from either side, with the
  normal \<open>(0, 0, 1)\<close>, and a scene around a list of objects and lights.
\<close>

definition plane :: "real \<Rightarrow> MaterialType \<Rightarrow> real \<Rightarrow> Object" where
  "plane h m i =
     \<lparr>materialType = m, ior = i, Kd = 4 / 5, Ks = 1 / 5, specularExponent = 25,
      intersect = (\<lambda>orig dir.
         if vz dir \<noteq> 0 \<and> 0 < (h - vz orig) / vz dir
         then Some ((h - vz orig) / vz dir, 0, Vector2f 0 0) else None),
      getSurfaceProperties = (\<lambda>P I k st. (Vector3f 0 0 1, st)),
      evalDiffuseColor = (\<lambda>st. Vector3f (1 / 2) (1 / 2) (1 / 2))\<rparr>"

definition example_scene :: "Object list \<Rightarrow> Light list \<Rightarrow> int \<Rightarrow> Scene" where
  "example_scene objs ls md =
     \<lparr>width = 4, height = 4, fov = 90, backgroundColor = Vector3f 1 1 1,
      maxDepth = md, epsilon = 1 / 100000, objects = objs, lights = ls\<rparr>"

text \<open>A diffuse floor, a ceiling between it and the only light.\<close>

definition shadow_scene :: Scene where
  "shadow_scene =
     example_scene [plane 0 DIFFUSE_AND_GLOSSY 1, plane 2 DIFFUSE_AND_GLOSSY 1]
       [\<lparr>position = Vector3f 0 0 5, intensity = Vector3f 1 1 1\<rparr>] 5"

text \<open>
  A mirror floor under the background; a glass floor with \<open>ior = 1/2\<close>; a scene
  without objects.
\<close>

definition mirror_scene :: Scene where
  "mirror_scene = example_scene [plane 0 REFLECTION 3] [] 1"

definition glass_scene :: Scene where
  "glass_scene = example_scene [plane 0 REFLECTION_AND_REFRACTION (1 / 2)] [] 1"

definition empty_scene :: Scene where
  "empty_scene = example_scene [] [] 0"

text \<open>
  The floor and the ceiling again, with a second light under the ceiling; the mirror
  floor in a scene whose maximum depth is the largest \<open>int\<close>.
\<close>

definition two_light_scene :: Scene where
  "two_light_scene =
     example_scene [plane 0 DIFFUSE_AND_GLOSSY 1, plane 2 DIFFUSE_AND_GLOSSY 1]
       [\<lparr>position = Vector3f 0 0 5, intensity = Vector3f 1 1 1\<rparr>,
        \<lparr>position = Vector3f 0 0 1, intensity = Vector3f 1 1 1\<rparr>] 5"

definition deep_mirror_scene :: Scene where
  "deep_mirror_scene = example_scene [plane 0 REFLECTION 3] [] INT_MAX"

text \<open>A primitive that reports a hit and leaves the distance at \<open>kInfinity\<close>.\<close>

definition far_object :: Object where
  "far_object =
     \<lparr>materialType = DIFFUSE_AND_GLOSSY, ior = 1, Kd = 4 / 5, Ks = 1 / 5,
      specularExponent = 25,
      intersect = (\<lambda>orig dir. Some (kInfinity, 0, Vector2f 0 0)),
      getSurfaceProperties = (\<lambda>P I k st. (Vector3f 0 0 1, st)),
      evalDiffuseColor = (\<lambda>st. Vector3f (1 / 2) (1 / 2) (1 / 2))\<rparr>"

section \<open>Properties of the intersector\<close>

lemma trace_loop_Some_start:
  "trace_loop orig dir objs best (Some p) \<noteq> None"
  by (induction objs arbitrary: best p) (auto split: option.splits)

lemma trace_loop_None_iff:
  "trace_loop orig dir objs best None = None \<longleftrightarrow>
     (\<forall>obj \<in> set objs. \<forall>t k u. intersect obj orig dir = Some (t, k, u) \<longrightarrow> \<not> t < best)"
  by (induction objs) (auto simp: trace_loop_Some_start split: option.splits)

lemma trace_loop_result:
  assumes "trace_loop orig dir objs best p0 = Some p"
  shows "(p0 = Some p \<and>
            (\<forall>obj \<in> set objs. \<forall>t k u. intersect obj orig dir = Some (t, k, u) \<longrightarrow> best \<le> t))
       \<or> (\<exists>pre obj post. objs = pre @ obj # post \<and>
             p = \<lparr>tNear = tNear p, index = index p, uv = uv p, hit_obj = obj\<rparr> \<and>
             intersect obj orig dir = Some (tNear p, index p, uv p) \<and> tNear p < best \<and>
             (\<forall>ob \<in> set pre. \<forall>t k u. intersect ob orig dir = Some (t, k, u) \<longrightarrow> tNear p < t) \<and>
             (\<forall>ob \<in> set post. \<forall>t k u. intersect ob orig dir = Some (t, k, u) \<longrightarrow> tNear p \<le> t))"
  using assms
proof (induction objs arbitrary: best p0)
  case Nil
  then show ?case by simp
next
  case (Cons object rest)
  show ?case
  proof (cases "intersect object orig dir")
    case None
    with Cons.prems have run: "trace_loop orig dir rest best p0 = Some p" by simp
    from Cons.IH [OF run] show ?thesis
    proof (elim disjE exE conjE)
      assume "p0 = Some p"
        and "\<forall>obj\<in>set rest. \<forall>t k u. intersect obj orig dir = Some (t, k, u) \<longrightarrow> best \<le> t"
      with None show ?thesis by simp
    next
      fix pre obj post
      assume split: "rest = pre @ obj # post"
        and rest: "p = \<lparr>tNear = tNear p, index = index p, uv = uv p, hit_obj = obj\<rparr>"
          "intersect obj orig dir = Some (tNear p, index p, uv p)" "tNear p < best"
          "\<forall>ob\<in>set pre. \<forall>t k u. intersect ob orig dir = Some (t, k, u) \<longrightarrow> tNear p < t"
          "\<forall>ob\<in>set post. \<forall>t k u. intersect ob orig dir = Some (t, k, u) \<longrightarrow> tNear p \<le> t"
      from split have "object # rest = (object # pre) @ obj # post" by simp
      moreover from rest(4) None
      have "\<forall>ob\<in>set (object # pre). \<forall>t k u. intersect ob orig dir = Some (t, k, u) \<longrightarrow> tNear p < t"
        by simp
      ultimately show ?thesis using rest by blast
    qed
  next
    case (Some hit)
    obtain tK iK uK where hit: "hit = (tK, iK, uK)" by (cases hit)
    show ?thesis
    proof (cases "tK < best")
      case True
      let ?q = "\<lparr>tNear = tK, index = iK, uv = uK, hit_obj = object\<rparr>"
      from Cons.prems Some hit True
      have run: "trace_loop orig dir rest tK (Some ?q) = Some p" by simp
      from Cons.IH [OF run] show ?thesis
      proof (elim disjE exE conjE)
        assume eq: "Some ?q = Some p"
          and later: "\<forall>obj\<in>set rest. \<forall>t k u. intersect obj orig dir = Some (t, k, u) \<longrightarrow> tK \<le> t"
        from eq have p: "p = ?q" by simp
        have "object # rest = [] @ object # rest" by simp
        moreover have "p = \<lparr>tNear = tNear p, index = index p, uv = uv p, hit_obj = object\<rparr>"
          by (simp add: p)
        moreover have "intersect object orig dir = Some (tNear p, index p, uv p)"
          using Some hit by (simp add: p)
        moreover have "tNear p < best" using True by (simp add: p)
        moreover have "\<forall>ob\<in>set rest. \<forall>t k u. intersect ob orig dir = Some (t, k, u) \<longrightarrow> tNear p \<le> t"
          using later by (simp add: p)
        ultimately show ?thesis by (intro disjI2 exI [of _ "[]"] exI [of _ object] exI [of _ rest]) simp
      next
        fix pre obj post
        assume split: "rest = pre @ obj # post"
          and rest: "p = \<lparr>tNear = tNear p, index = index p, uv = uv p, hit_obj = obj\<rparr>"
            "intersect obj orig dir = Some (tNear p, index p, uv p)" "tNear p < tK"
            "\<forall>ob\<in>set pre. \<forall>t k u. intersect ob orig dir = Some (t, k, u) \<longrightarrow> tNear p < t"
            "\<forall>ob\<in>set post. \<forall>t k u. intersect ob orig dir = Some (t, k, u) \<longrightarrow> tNear p \<le> t"
        from split have "object # rest = (object # pre) @ obj # post" by simp
        moreover from rest(3,4) Some hit
        have "\<forall>ob\<in>set (object # pre). \<forall>t k u. intersect ob orig dir = Some (t, k, u) \<longrightarrow> tNear p < t"
          by simp
        moreover from rest(3) True have "tNear p < best" by simp
        ultimately show ?thesis using rest(1,2,5) by blast
      qed
    next
      case False
      with Cons.prems Some hit have run: "trace_loop orig dir rest best p0 = Some p" by simp
      from Cons.IH [OF run] show ?thesis
      proof (elim disjE exE conjE)
        assume "p0 = Some p"
          and "\<forall>obj\<in>set rest. \<forall>t k u. intersect obj orig dir = Some (t, k, u) \<longrightarrow> best \<le> t"
        with Some hit False show ?thesis by simp
      next
        fix pre obj post
        assume split: "rest = pre @ obj # post"
          and rest: "p = \<lparr>tNear = tNear p, index = index p, uv = uv p, hit_obj = obj\<rparr>"
            "intersect obj orig dir = Some (tNear p, index p, uv p)" "tNear p < best"
            "\<forall>ob\<in>set pre. \<forall>t k u. intersect ob orig dir = Some (t, k, u) \<longrightarrow> tNear p < t"
            "\<forall>ob\<in>set post. \<forall>t k u. intersect ob orig dir = Some (t, k, u) \<longrightarrow> tNear p \<le> t"
        from split have "object # rest = (object # pre) @ obj # post" by simp
        moreover from rest(3,4) Some hit False
        have "\<forall>ob\<in>set (object # pre). \<forall>t k u. intersect ob orig dir = Some (t, k, u) \<longrightarrow> tNear p < t"
          by simp
        ultimately show ?thesis using rest by blast
      qed
    qed
  qed
qed


lemmas vec_simps =
  zero_Vector3f_def plus_Vector3f_def minus_Vector3f_def uminus_Vector3f_def
  times_Vector3f_def mul_scalar_def div_scalar_def dotProduct_def

text \<open>
  Claim C6, as the code has it. \<open>trace\<close> starts its search at \<open>kInfinity\<close>, so
  it returns nothing exactly when no primitive reports an intersection at a distance
  below \<open>kInfinity\<close>. When it returns a hit record, the record is the one a primitive
  of the list reported (distance, local index, uv, and that primitive), its distance is
  strictly smaller than every distance reported by an earlier primitive and at most
  every distance reported by a later one: the closest hit, the first one among equals.
\<close>

theorem trace_closest_first:
  "(trace orig dir objs = None \<longleftrightarrow>
      (\<forall>obj \<in> set objs. \<forall>t k u. intersect obj orig dir = Some (t, k, u) \<longrightarrow> \<not> t < kInfinity))
   \<and> (\<forall>p. trace orig dir objs = Some p \<longrightarrow>
        (\<exists>pre obj post. objs = pre @ obj # post \<and> hit_obj p = obj \<and>
           intersect obj orig dir = Some (tNear p, index p, uv p) \<and> tNear p < kInfinity \<and>
           (\<forall>ob \<in> set pre. \<forall>t k u. intersect ob orig dir = Some (t, k, u) \<longrightarrow> tNear p < t) \<and>
           (\<forall>ob \<in> set post. \<forall>t k u. intersect ob orig dir = Some (t, k, u) \<longrightarrow> tNear p \<le> t)))"
proof (intro conjI allI impI)
  show "trace orig dir objs = None \<longleftrightarrow>
      (\<forall>obj \<in> set objs. \<forall>t k u. intersect obj orig dir = Some (t, k, u) \<longrightarrow> \<not> t < kInfinity)"
    unfolding trace_def by (rule trace_loop_None_iff)
next
  fix p
  assume "trace orig dir objs = Some p"
  then have run: "trace_loop orig dir objs kInfinity None = Some p"
    by (simp add: trace_def)
  from trace_loop_result [OF run]
  obtain pre obj post where found: "objs = pre @ obj # post"
      "p = \<lparr>tNear = tNear p, index = index p, uv = uv p, hit_obj = obj\<rparr>"
      "intersect obj orig dir = Some (tNear p, index p, uv p)" "tNear p < kInfinity"
      "\<forall>ob\<in>set pre. \<forall>t k u. intersect ob orig dir = Some (t, k, u) \<longrightarrow> tNear p < t"
      "\<forall>ob\<in>set post. \<forall>t k u. intersect ob orig dir = Some (t, k, u) \<longrightarrow> tNear p \<le> t"
    by blast
  from found(2) have "hit_obj p = obj"
    by (metis hit_payload.select_convs(4))
  with found show "\<exists>pre obj post. objs = pre @ obj # post \<and> hit_obj p = obj \<and>
           intersect obj orig dir = Some (tNear p, index p, uv p) \<and> tNear p < kInfinity \<and>
           (\<forall>ob \<in> set pre. \<forall>t k u. intersect ob orig dir = Some (t, k, u) \<longrightarrow> tNear p < t) \<and>
           (\<forall>ob \<in> set post. \<forall>t k u. intersect ob orig dir = Some (t, k, u) \<longrightarrow> tNear p \<le> t)"
    by blast
qed

lemma kInfinity_gt: "2 < kInfinity" "1 < kInfinity"
  by (simp_all add: kInfinity_def)

lemma plane_intersect:
  "intersect (plane h m i) orig dir =
     (if vz dir \<noteq> 0 \<and> 0 < (h - vz orig) / vz dir
      then Some ((h - vz orig) / vz dir, 0, Vector2f 0 0) else None)"
  by (simp add: plane_def)

lemma tied_planes_trace:
  "trace (Vector3f 0 0 1) (Vector3f 0 0 (- 1))
     [plane (- 1) DIFFUSE_AND_GLOSSY 1, plane 0 DIFFUSE_AND_GLOSSY 1, plane 0 REFLECTION 1]
   = Some \<lparr>tNear = 1, index = 0, uv = Vector2f 0 0, hit_obj = plane 0 DIFFUSE_AND_GLOSSY 1\<rparr>"
  by (simp add: trace_def plane_intersect kInfinity_gt)

text \<open>
  Claim C6 on three planes under the ray's origin, the second and the third at the same
  distance: \<open>trace\<close> returns the second.
\<close>

theorem trace_closest_first_witness:
  "trace (Vector3f 0 0 1) (Vector3f 0 0 (- 1))
     [plane (- 1) DIFFUSE_AND_GLOSSY 1, plane 0 DIFFUSE_AND_GLOSSY 1, plane 0 REFLECTION 1]
   = Some \<lparr>tNear = 1, index = 0, uv = Vector2f 0 0, hit_obj = plane 0 DIFFUSE_AND_GLOSSY 1\<rparr>
   \<and> (\<exists>pre obj post.
         [plane (- 1) DIFFUSE_AND_GLOSSY 1, plane 0 DIFFUSE_AND_GLOSSY 1, plane 0 REFLECTION 1]
           = pre @ obj # post \<and>
         obj = plane 0 DIFFUSE_AND_GLOSSY 1 \<and>
         intersect obj (Vector3f 0 0 1) (Vector3f 0 0 (- 1)) = Some (1, 0, Vector2f 0 0) \<and>
         (1::real) < kInfinity \<and>
         (\<forall>ob \<in> set pre. \<forall>t k u.
            intersect ob (Vector3f 0 0 1) (Vector3f 0 0 (- 1)) = Some (t, k, u) \<longrightarrow> 1 < t) \<and>
         (\<forall>ob \<in> set post. \<forall>t k u.
            intersect ob (Vector3f 0 0 1) (Vector3f 0 0 (- 1)) = Some (t, k, u) \<longrightarrow> 1 \<le> t))"
  using trace_closest_first
    [of "Vector3f 0 0 1" "Vector3f 0 0 (- 1)"
        "[plane (- 1) DIFFUSE_AND_GLOSSY 1, plane 0 DIFFUSE_AND_GLOSSY 1, plane 0 REFLECTION 1]"]
    tied_planes_trace
  by simp

text \<open>
  Claim C6 as stated fails where a primitive reports a hit and the distance it leaves
  is \<open>kInfinity\<close>, the value \<open>trace\<close> initialises it to: the comparison
  \<open>tNearK < tNear\<close> is false and \<open>trace\<close> returns nothing.
\<close>

theorem trace_misses_reported_hit:
  "intersect far_object (Vector3f 0 0 1) (Vector3f 0 0 (- 1)) = Some (kInfinity, 0, Vector2f 0 0)
   \<and> trace (Vector3f 0 0 1) (Vector3f 0 0 (- 1)) [far_object] = None"
  by (simp add: trace_def far_object_def)

section \<open>Properties of the integrator\<close>

text \<open>
  \<open>castRay_rel\<close> is the call relation of \<open>castRay\<close>, derived from its defining
  equation: \<open>castRay_rel a b\<close> holds when \<open>castRay\<close> at the arguments \<open>b\<close>
  calls itself at the arguments \<open>a\<close>. \<open>castRay_dom\<close> is the accessible part of
  that relation: the arguments from which every chain of recursive calls is finite.
\<close>

lemma castRay_beyond_depth:
  "maxDepth scene < depth \<Longrightarrow> castRay orig dir scene depth = Inr (Vector3f 0 0 0)"
  by (simp add: castRay.simps)

lemma castRay_background:
  "\<not> maxDepth scene < depth \<Longrightarrow> trace orig d (objects scene) = None \<Longrightarrow>
   castRay orig (Some d) scene depth = Inr (backgroundColor scene)"
  by (simp add: castRay.simps)

lemma castRay_NaN:
  "\<not> maxDepth scene < depth \<Longrightarrow> castRay orig None scene depth = Inl NaNDirection"
  by (simp add: castRay.simps)

lemma castRay_call_depth:
  assumes "castRay_rel (orig', dir', scene', depth') (orig, dir, scene, depth)"
  shows "scene' = scene \<and> depth' = depth + 1 \<and> depth \<le> maxDepth scene"
  using assms by (cases rule: castRay_rel.cases) auto

lemma castRay_total: "castRay_dom a"
proof -
  have "{(a, b). castRay_rel a b}
          \<subseteq> measure (\<lambda>(orig, dir, scene, depth). nat (maxDepth scene + 1 - depth))"
    by (auto dest!: castRay_call_depth)
  then have "wf {(a, b). castRay_rel a b}"
    by (rule wf_subset [OF wf_measure])
  then have "wfp castRay_rel"
    by (simp add: wfp_def)
  then show ?thesis
    by (rule accp_wfpD)
qed

lemma castRay_calls_reflective:
  assumes "depth \<le> maxDepth scene" and "trace orig d (objects scene) = Some payload"
    and "materialType (hit_obj payload) \<noteq> DIFFUSE_AND_GLOSSY"
  shows "\<exists>orig' dir'. castRay_rel (orig', dir', scene, depth + 1) (orig, Some d, scene, depth)"
proof (cases "materialType (hit_obj payload)")
  case DIFFUSE_AND_GLOSSY
  with assms(3) show ?thesis by simp
next
  case REFLECTION_AND_REFRACTION
  obtain N st where sp: "(N, st) = getSurfaceProperties (hit_obj payload)
      (orig + mul_scalar d (tNear payload)) d (index payload) (uv payload)"
    by (metis surj_pair)
  from assms(1) have "\<not> maxDepth scene < depth" by simp
  from castRay_rel.intros(1) [OF this refl assms(2) refl refl sp REFLECTION_AND_REFRACTION refl refl refl refl]
  show ?thesis by blast
next
  case REFLECTION
  obtain N st where sp: "(N, st) = getSurfaceProperties (hit_obj payload)
      (orig + mul_scalar d (tNear payload)) d (index payload) (uv payload)"
    by (metis surj_pair)
  from assms(1) have "\<not> maxDepth scene < depth" by simp
  from castRay_rel.intros(3) [OF this refl assms(2) refl refl sp REFLECTION refl refl refl]
  show ?thesis by blast
qed

text \<open>
  Claim C4. At a depth greater than the scene's maximum recursion depth \<open>castRay\<close>
  returns black, whatever the ray and the scene are, and makes no recursive call. The
  depth check is the only rule that ends the recursion: at a depth within the limit,
  every hit on a reflective or refractive surface leads to a recursive call at
  \<open>depth + 1\<close>.
\<close>

theorem castRay_depth_limit:
  "(maxDepth scene < depth \<longrightarrow>
      castRay orig dir scene depth = Inr (Vector3f 0 0 0) \<and>
      (\<forall>a. \<not> castRay_rel a (orig, dir, scene, depth)))
   \<and> (depth \<le> maxDepth scene \<and> trace orig d (objects scene) = Some payload \<and>
      materialType (hit_obj payload) \<noteq> DIFFUSE_AND_GLOSSY \<longrightarrow>
      (\<exists>orig' dir'. castRay_rel (orig', dir', scene, depth + 1) (orig, Some d, scene, depth)))"
proof (intro conjI impI allI)
  assume "maxDepth scene < depth"
  then show "castRay orig dir scene depth = Inr (Vector3f 0 0 0)"
    by (rule castRay_beyond_depth)
next
  fix a
  assume deep: "maxDepth scene < depth"
  show "\<not> castRay_rel a (orig, dir, scene, depth)"
  proof
    assume "castRay_rel a (orig, dir, scene, depth)"
    then have "depth \<le> maxDepth scene"
      by (cases a) (auto dest: castRay_call_depth)
    with deep show False by simp
  qed
next
  assume "depth \<le> maxDepth scene \<and> trace orig d (objects scene) = Some payload \<and>
      materialType (hit_obj payload) \<noteq> DIFFUSE_AND_GLOSSY"
  then show "\<exists>orig' dir'. castRay_rel (orig', dir', scene, depth + 1) (orig, Some d, scene, depth)"
    using castRay_calls_reflective by blast
qed

text \<open>
  Claim C5, as the code has it: at every depth up to the scene's maximum recursion
  depth, a ray that hits nothing gets exactly the background colour.
\<close>

theorem castRay_miss_background:
  "depth \<le> maxDepth scene \<Longrightarrow> trace orig d (objects scene) = None \<Longrightarrow>
   castRay orig (Some d) scene depth = Inr (backgroundColor scene)"
  by (rule castRay_background) simp_all



subsection \<open>The example scenes, evaluated\<close>

lemma example_scene_fields:
  "maxDepth (example_scene objs ls md) = md"
  "objects (example_scene objs ls md) = objs"
  "lights (example_scene objs ls md) = ls"
  "epsilon (example_scene objs ls md) = 1 / 100000"
  "backgroundColor (example_scene objs ls md) = Vector3f 1 1 1"
  by (simp_all add: example_scene_def)

lemma plane_fields:
  "materialType (plane h m i) = m"
  "ior (plane h m i) = i"
  "Kd (plane h m i) = 4 / 5"
  "Ks (plane h m i) = 1 / 5"
  "specularExponent (plane h m i) = 25"
  "getSurfaceProperties (plane h m i) P I k st = (Vector3f 0 0 1, st)"
  "evalDiffuseColor (plane h m i) st = Vector3f (1 / 2) (1 / 2) (1 / 2)"
  by (simp_all add: plane_def)

lemma empty_scene_miss: "trace orig d (objects empty_scene) = None"
  by (simp add: empty_scene_def example_scene_fields trace_def)

lemma mirror_hit:
  "trace (Vector3f 0 0 1) (Vector3f 0 0 (- 1)) (objects mirror_scene)
   = Some \<lparr>tNear = 1, index = 0, uv = Vector2f 0 0, hit_obj = plane 0 REFLECTION 3\<rparr>"
  by (simp add: mirror_scene_def example_scene_fields trace_def plane_intersect kInfinity_gt)

lemma reflect_straight_down:
  "reflect (Vector3f 0 0 (- 1)) (Vector3f 0 0 1) = Vector3f 0 0 1"
  by (simp add: reflect_def vec_simps)

lemma mirror_call:
  "castRay_rel (Vector3f 0 0 (- (1 / 100000)), Some (Vector3f 0 0 1), mirror_scene, 1)
     (Vector3f 0 0 1, Some (Vector3f 0 0 (- 1)), mirror_scene, 0)"
proof -
  have "castRay_rel
     (if dotProduct (reflect (Vector3f 0 0 (- 1)) (Vector3f 0 0 1)) (Vector3f 0 0 1) < 0
      then (Vector3f 0 0 1 + mul_scalar (Vector3f 0 0 (- 1)) 1)
             + mul_scalar (Vector3f 0 0 1) (epsilon mirror_scene)
      else (Vector3f 0 0 1 + mul_scalar (Vector3f 0 0 (- 1)) 1)
             - mul_scalar (Vector3f 0 0 1) (epsilon mirror_scene),
      Some (reflect (Vector3f 0 0 (- 1)) (Vector3f 0 0 1)), mirror_scene, 0 + 1)
     (Vector3f 0 0 1, Some (Vector3f 0 0 (- 1)), mirror_scene, 0)"
    by (rule castRay_rel.intros(3) [OF _ refl mirror_hit _ refl _ _ refl refl refl])
       (simp_all add: mirror_scene_def example_scene_fields plane_fields)
  then show ?thesis
    by (simp add: reflect_straight_down mirror_scene_def example_scene_fields vec_simps)
qed

text \<open>
  Claim C4 on the mirror scene, whose maximum depth is 1: black at depth 2, a
  recursive call at depth 0.
\<close>

theorem castRay_depth_limit_witness:
  "maxDepth mirror_scene < 2
   \<and> castRay (Vector3f 0 0 1) (Some (Vector3f 0 0 (- 1))) mirror_scene 2 = Inr (Vector3f 0 0 0)
   \<and> (\<forall>a. \<not> castRay_rel a (Vector3f 0 0 1, Some (Vector3f 0 0 (- 1)), mirror_scene, 2))
   \<and> 0 \<le> maxDepth mirror_scene
   \<and> trace (Vector3f 0 0 1) (Vector3f 0 0 (- 1)) (objects mirror_scene)
       = Some \<lparr>tNear = 1, index = 0, uv = Vector2f 0 0, hit_obj = plane 0 REFLECTION 3\<rparr>
   \<and> materialType (plane 0 REFLECTION 3) \<noteq> DIFFUSE_AND_GLOSSY
   \<and> (\<exists>orig' dir'. castRay_rel (orig', dir', mirror_scene, 0 + 1)
         (Vector3f 0 0 1, Some (Vector3f 0 0 (- 1)), mirror_scene, 0))"
proof -
  have deep: "maxDepth mirror_scene < 2" and within: "0 \<le> maxDepth mirror_scene"
    by (simp_all add: mirror_scene_def example_scene_fields)
  have kind: "materialType (plane 0 REFLECTION 3) \<noteq> DIFFUSE_AND_GLOSSY"
    by (simp add: plane_fields)
  from castRay_depth_limit
    [of mirror_scene 2 "Vector3f 0 0 1" "Some (Vector3f 0 0 (- 1))" "Vector3f 0 0 (- 1)"
        "\<lparr>tNear = 1, index = 0, uv = Vector2f 0 0, hit_obj = plane 0 REFLECTION 3\<rparr>"]
    castRay_depth_limit
    [of mirror_scene 0 "Vector3f 0 0 1" "Some (Vector3f 0 0 (- 1))" "Vector3f 0 0 (- 1)"
        "\<lparr>tNear = 1, index = 0, uv = Vector2f 0 0, hit_obj = plane 0 REFLECTION 3\<rparr>"]
    deep within kind mirror_hit
  show ?thesis by simp
qed

text \<open>Claim C5 on the scene without objects, at depth 0.\<close>

theorem castRay_miss_background_witness:
  "0 \<le> maxDepth empty_scene
   \<and> trace (Vector3f 0 0 0) (Vector3f 0 0 (- 1)) (objects empty_scene) = None
   \<and> castRay (Vector3f 0 0 0) (Some (Vector3f 0 0 (- 1))) empty_scene 0 = Inr (Vector3f 1 1 1)"
proof -
  have within: "0 \<le> maxDepth empty_scene"
    by (simp add: empty_scene_def example_scene_fields)
  from castRay_miss_background [OF within empty_scene_miss] within empty_scene_miss
  show ?thesis by (simp add: empty_scene_def example_scene_fields)
qed

text \<open>
  Claim C5 as stated, at every recursion depth, fails beyond the maximum depth: the
  depth check comes first, and a ray that hits nothing gets black there, under a white
  background.
\<close>

theorem castRay_miss_beyond_depth:
  "trace (Vector3f 0 0 0) (Vector3f 0 0 (- 1)) (objects empty_scene) = None
   \<and> castRay (Vector3f 0 0 0) (Some (Vector3f 0 0 (- 1))) empty_scene 1 = Inr (Vector3f 0 0 0)
   \<and> castRay (Vector3f 0 0 0) (Some (Vector3f 0 0 (- 1))) empty_scene 1
       \<noteq> Inr (backgroundColor empty_scene)"
proof -
  have "maxDepth empty_scene < 1"
    by (simp add: empty_scene_def example_scene_fields)
  then have "castRay (Vector3f 0 0 0) (Some (Vector3f 0 0 (- 1))) empty_scene 1
      = Inr (Vector3f 0 0 0)"
    by (rule castRay_beyond_depth)
  then show ?thesis
    by (simp add: empty_scene_miss) (simp add: empty_scene_def example_scene_fields)
qed

subsection \<open>Termination\<close>

lemma castRay_no_overflow:
  "maxDepth scene < INT_MAX \<Longrightarrow> castRay orig dir scene depth \<noteq> Inl IntOverflow"
proof (induction orig dir scene depth rule: castRay.induct)
  case (1 orig dir scene depth)
  show ?case
  proof (cases "maxDepth scene < depth")
    case True
    then show ?thesis by (simp add: castRay_beyond_depth)
  next
    case False
    with "1.prems" have small: "depth \<noteq> INT_MAX" by simp
    show ?thesis
    proof (cases dir)
      case None
      with False show ?thesis by (simp add: castRay_NaN)
    next
      case (Some d)
      show ?thesis
      proof (cases "trace orig d (objects scene)")
        case None
        with False Some show ?thesis by (simp add: castRay_background)
      next
        case hit: (Some payload)
        obtain N st where sp: "(N, st) = getSurfaceProperties (hit_obj payload)
            (orig + mul_scalar d (tNear payload)) d (index payload) (uv payload)"
          by (metis surj_pair)
        show ?thesis
        proof (cases "materialType (hit_obj payload)")
          case DIFFUSE_AND_GLOSSY
          with False Some hit show ?thesis
            by (subst castRay.simps) (simp add: Let_def split: prod.splits)
        next
          case REFLECTION_AND_REFRACTION
          note ih1 = "1.IH"(1) [OF False Some hit refl refl sp REFLECTION_AND_REFRACTION
              refl refl refl refl "1.prems"]
          note ih2 = "1.IH"(2) [OF False Some hit refl refl sp REFLECTION_AND_REFRACTION
              refl refl refl refl refl "1.prems"]
          from ih1 ih2 False Some hit REFLECTION_AND_REFRACTION small sp [symmetric]
          show ?thesis
            by (subst castRay.simps) (auto simp: Let_def split: sum.splits)
        next
          case REFLECTION
          note ih3 = "1.IH"(3) [OF False Some hit refl refl sp REFLECTION refl refl refl
              "1.prems"]
          from ih3 False Some hit REFLECTION small sp [symmetric]
          show ?thesis
            by (subst castRay.simps) (auto simp: Let_def split: sum.splits)
        qed
      qed
    qed
  qed
qed


text \<open>
  Claim C8, as the code has it. In every scene whose maximum depth is below the largest
  \<open>int\<close>, \<open>castRay\<close> terminates at every origin, direction and depth: every
  recursive call keeps the scene and is made at \<open>depth + 1\<close>, which an
  \<open>int\<close> holds; none is made once the depth exceeds \<open>maxDepth\<close>; the measure
  \<open>maxDepth - depth\<close> is not negative where a call is made and decreases with it;
  and the evaluation never meets the overflow of \<open>depth + 1\<close>.
\<close>

theorem castRay_terminates_below_INT_MAX:
  assumes "maxDepth scene < INT_MAX"
  shows "castRay_dom (orig, dir, scene, depth)
    \<and> castRay orig dir scene depth \<noteq> Inl IntOverflow
    \<and> (\<forall>orig' dir' scene' depth'.
          castRay_rel (orig', dir', scene', depth') (orig, dir, scene, depth) \<longrightarrow>
          scene' = scene \<and> depth' = depth + 1 \<and> depth' \<le> INT_MAX \<and>
          depth \<le> maxDepth scene \<and>
          0 \<le> maxDepth scene - depth \<and> maxDepth scene - depth' < maxDepth scene - depth)"
proof (intro conjI allI impI)
  show "castRay_dom (orig, dir, scene, depth)" by (rule castRay_total)
next
  from assms show "castRay orig dir scene depth \<noteq> Inl IntOverflow"
    by (rule castRay_no_overflow)
next
  fix orig' dir' scene' depth'
  assume "castRay_rel (orig', dir', scene', depth') (orig, dir, scene, depth)"
  then have call: "scene' = scene \<and> depth' = depth + 1 \<and> depth \<le> maxDepth scene"
    by (rule castRay_call_depth)
  with assms show "scene' = scene" and "depth' = depth + 1" and "depth' \<le> INT_MAX"
    and "depth \<le> maxDepth scene" and "0 \<le> maxDepth scene - depth"
    and "maxDepth scene - depth' < maxDepth scene - depth"
    by simp_all
qed

text \<open>Claim C8 on the mirror scene: the call that the primary ray makes.\<close>

theorem castRay_terminates_below_INT_MAX_witness:
  "maxDepth mirror_scene < INT_MAX
   \<and> castRay_rel (Vector3f 0 0 (- (1 / 100000)), Some (Vector3f 0 0 1), mirror_scene, 1)
        (Vector3f 0 0 1, Some (Vector3f 0 0 (- 1)), mirror_scene, 0)
   \<and> castRay_dom (Vector3f 0 0 1, Some (Vector3f 0 0 (- 1)), mirror_scene, 0)
   \<and> castRay (Vector3f 0 0 1) (Some (Vector3f 0 0 (- 1))) mirror_scene 0 \<noteq> Inl IntOverflow
   \<and> (1::int) = 0 + 1 \<and> 1 \<le> INT_MAX \<and> 0 \<le> maxDepth mirror_scene
   \<and> 0 \<le> maxDepth mirror_scene - 0
   \<and> maxDepth mirror_scene - 1 < maxDepth mirror_scene - 0"
proof -
  have small: "maxDepth mirror_scene < INT_MAX"
    by (simp add: mirror_scene_def example_scene_fields INT_MAX_def)
  from castRay_terminates_below_INT_MAX
    [OF small, of "Vector3f 0 0 1" "Some (Vector3f 0 0 (- 1))" 0] mirror_call small
  show ?thesis by blast
qed

lemma deep_mirror_hit:
  "trace (Vector3f 0 0 1) (Vector3f 0 0 (- 1)) (objects deep_mirror_scene)
   = Some \<lparr>tNear = 1, index = 0, uv = Vector2f 0 0, hit_obj = plane 0 REFLECTION 3\<rparr>"
  by (simp add: deep_mirror_scene_def example_scene_fields trace_def plane_intersect
        kInfinity_gt)

lemma deep_mirror_call:
  "castRay_rel (Vector3f 0 0 (- (1 / 100000)), Some (Vector3f 0 0 1), deep_mirror_scene,
                INT_MAX + 1)
     (Vector3f 0 0 1, Some (Vector3f 0 0 (- 1)), deep_mirror_scene, INT_MAX)"
proof -
  have "castRay_rel
     (if dotProduct (reflect (Vector3f 0 0 (- 1)) (Vector3f 0 0 1)) (Vector3f 0 0 1) < 0
      then (Vector3f 0 0 1 + mul_scalar (Vector3f 0 0 (- 1)) 1)
             + mul_scalar (Vector3f 0 0 1) (epsilon deep_mirror_scene)
      else (Vector3f 0 0 1 + mul_scalar (Vector3f 0 0 (- 1)) 1)
             - mul_scalar (Vector3f 0 0 1) (epsilon deep_mirror_scene),
      Some (reflect (Vector3f 0 0 (- 1)) (Vector3f 0 0 1)), deep_mirror_scene, INT_MAX + 1)
     (Vector3f 0 0 1, Some (Vector3f 0 0 (- 1)), deep_mirror_scene, INT_MAX)"
    by (rule castRay_rel.intros(3) [OF _ refl deep_mirror_hit _ refl _ _ refl refl refl])
       (simp_all add: deep_mirror_scene_def example_scene_fields plane_fields)
  moreover have "epsilon deep_mirror_scene = 1 / 100000"
    by (simp add: deep_mirror_scene_def example_scene_fields)
  ultimately show ?thesis
    by (simp add: reflect_straight_down vec_simps)
qed

lemma deep_mirror_castRay:
  "castRay (Vector3f 0 0 1) (Some (Vector3f 0 0 (- 1))) deep_mirror_scene INT_MAX
   = Inl IntOverflow"
proof -
  have md: "\<not> maxDepth deep_mirror_scene < INT_MAX"
    by (simp add: deep_mirror_scene_def example_scene_fields)
  show ?thesis
    by (subst castRay.simps) (simp add: md deep_mirror_hit plane_fields Let_def)
qed

text \<open>
  Claim C8 as stated, for every scene with a finite maximum depth, fails at the largest
  one. With \<open>maxDepth = INT_MAX\<close> no depth exceeds the maximum depth; at depth
  \<open>INT_MAX\<close> a ray that hits the mirror makes its recursive call at
  \<open>depth + 1\<close>, which no \<open>int\<close> holds: the addition overflows, and
  \<open>castRay\<close> does not return a colour.
\<close>

theorem castRay_depth_overflow:
  "maxDepth deep_mirror_scene = INT_MAX
   \<and> INT_MAX \<le> maxDepth deep_mirror_scene
   \<and> trace (Vector3f 0 0 1) (Vector3f 0 0 (- 1)) (objects deep_mirror_scene)
       = Some \<lparr>tNear = 1, index = 0, uv = Vector2f 0 0, hit_obj = plane 0 REFLECTION 3\<rparr>
   \<and> castRay_rel (Vector3f 0 0 (- (1 / 100000)), Some (Vector3f 0 0 1), deep_mirror_scene,
                   INT_MAX + 1)
        (Vector3f 0 0 1, Some (Vector3f 0 0 (- 1)), deep_mirror_scene, INT_MAX)
   \<and> \<not> INT_MAX + 1 \<le> INT_MAX
   \<and> castRay (Vector3f 0 0 1) (Some (Vector3f 0 0 (- 1))) deep_mirror_scene INT_MAX
       = Inl IntOverflow"
  using deep_mirror_hit deep_mirror_call deep_mirror_castRay
  by (simp add: deep_mirror_scene_def example_scene_fields)

subsection \<open>The default branch\<close>

lemma add_zero_vec: "(a::Vector3f) + 0 = a" "0 + a = a"
  by (cases a; simp add: vec_simps)+

lemma mul_scalar_zero_vec: "mul_scalar (Vector3f 0 0 0) r = Vector3f 0 0 0"
  by (simp add: vec_simps)

lemma normalize_vec_away:
  "v \<noteq> 0 \<Longrightarrow> normalize_vec v = Some (div_scalar v (length_vec v))"
  by (cases v) (simp add: normalize_vec_def length_vec_def zero_Vector3f_def
       add_nonneg_eq_0_iff)

lemma position_away: "p \<noteq> h \<Longrightarrow> p - h \<noteq> (0::Vector3f)"
  by (cases p; cases h) (auto simp: vec_simps)

lemma light_step_away:
  assumes "position light \<noteq> hitPoint"
  shows "light_step scene obj dir hitPoint N shadowPointOrig light (a, s) =
     (a + (if (case trace shadowPointOrig
                      (div_scalar (position light - hitPoint)
                         (length_vec (position light - hitPoint))) (objects scene) of
                 None \<Rightarrow> False
               | Some r \<Rightarrow> tNear r * tNear r
                    < dotProduct (position light - hitPoint) (position light - hitPoint))
           then 0
           else mul_scalar (intensity light)
                  (max 0 (dotProduct (div_scalar (position light - hitPoint)
                            (length_vec (position light - hitPoint))) N))),
      s + mul_scalar (intensity light)
            (powf (max 0 (- dotProduct
                     (reflect (- div_scalar (position light - hitPoint)
                                  (length_vec (position light - hitPoint))) N) dir))
               (specularExponent obj)))"
  using normalize_vec_away [OF position_away [OF assms]]
  by (simp add: light_step_def Let_def)

lemma light_loop_sums:
  assumes "\<forall>light \<in> set ls. position light \<noteq> hitPoint"
  shows "light_loop scene obj dir hitPoint N shadowPointOrig ls (a, s) =
     (foldl (+) a (map (\<lambda>light.
          if (case trace shadowPointOrig
                    (div_scalar (position light - hitPoint)
                       (length_vec (position light - hitPoint))) (objects scene) of
               None \<Rightarrow> False
             | Some r \<Rightarrow> tNear r * tNear r
                  < dotProduct (position light - hitPoint) (position light - hitPoint))
          then 0
          else mul_scalar (intensity light)
                 (max 0 (dotProduct (div_scalar (position light - hitPoint)
                           (length_vec (position light - hitPoint))) N))) ls),
      foldl (+) s (map (\<lambda>light.
          mul_scalar (intensity light)
            (powf (max 0 (- dotProduct
                     (reflect (- div_scalar (position light - hitPoint)
                                  (length_vec (position light - hitPoint))) N) dir))
               (specularExponent obj))) ls))"
  using assms
proof (induction ls arbitrary: a s)
  case Nil
  then show ?case by simp
next
  case (Cons light rest)
  then have here: "position light \<noteq> hitPoint"
    and later: "\<forall>light \<in> set rest. position light \<noteq> hitPoint"
    by simp_all
  show ?case
    by (simp add: light_step_away [OF here] Cons.IH [OF later])
qed

text \<open>
  Claim C1, as the code has it. In the default branch, with no light at the hit point,
  the loop over the lights leaves in the diffuse accumulator the sum of
  \<open>intensity * max(0, N\<cdot>L)\<close> over the lights that are not occluded, and adds
  nothing for a light whose shadow ray's nearest hit distance, squared, is strictly less
  than the squared distance from the hit point to the light. The specular accumulator
  is not guarded by the shadow test: it holds the sum of
  \<open>powf(max(0, -R\<cdot>V), specularExponent) * intensity\<close> over all the lights, occluded
  or not. The colour \<open>castRay\<close> returns is the first sum times the diffuse colour
  times \<open>Kd\<close> plus the second sum times \<open>Ks\<close>.
\<close>

theorem default_branch_colour:
  fixes scene :: Scene and orig d N :: Vector3f and payload :: hit_payload
    and hitPoint shadowPointOrig :: Vector3f
    and lightDir diffuse specular :: "Light \<Rightarrow> Vector3f" and occluded :: "Light \<Rightarrow> bool"
  defines "hitPoint \<equiv> orig + mul_scalar d (tNear payload)"
    and "shadowPointOrig \<equiv>
          (if dotProduct d N < 0 then hitPoint + mul_scalar N (epsilon scene)
           else hitPoint - mul_scalar N (epsilon scene))"
    and "lightDir \<equiv> \<lambda>light. div_scalar (position light - hitPoint)
                               (length_vec (position light - hitPoint))"
    and "occluded \<equiv> \<lambda>light.
          (case trace shadowPointOrig (lightDir light) (objects scene) of
             None \<Rightarrow> False
           | Some r \<Rightarrow> tNear r * tNear r
                < dotProduct (position light - hitPoint) (position light - hitPoint))"
    and "diffuse \<equiv> \<lambda>light.
          if occluded light then 0
          else mul_scalar (intensity light) (max 0 (dotProduct (lightDir light) N))"
    and "specular \<equiv> \<lambda>light.
          mul_scalar (intensity light)
            (powf (max 0 (- dotProduct (reflect (- lightDir light) N) d))
               (specularExponent (hit_obj payload)))"
  assumes "depth \<le> maxDepth scene"
    and "trace orig d (objects scene) = Some payload"
    and "materialType (hit_obj payload) = DIFFUSE_AND_GLOSSY"
    and "getSurfaceProperties (hit_obj payload) hitPoint d (index payload) (uv payload)
           = (N, st)"
    and "\<forall>light \<in> set (lights scene). position light \<noteq> hitPoint"
  shows "(\<forall>ls a s. (\<forall>light \<in> set ls. position light \<noteq> hitPoint) \<longrightarrow>
            light_loop scene (hit_obj payload) d hitPoint N shadowPointOrig ls (a, s)
              = (foldl (+) a (map diffuse ls), foldl (+) s (map specular ls)))
       \<and> castRay orig (Some d) scene depth =
           Inr (mul_scalar (foldl (+) 0 (map diffuse (lights scene))
                              * evalDiffuseColor (hit_obj payload) st) (Kd (hit_obj payload))
                + mul_scalar (foldl (+) 0 (map specular (lights scene)))
                    (Ks (hit_obj payload)))"
proof (intro conjI allI impI)
  fix ls :: "Light list" and a s :: Vector3f
  assume "\<forall>light \<in> set ls. position light \<noteq> hitPoint"
  then show "light_loop scene (hit_obj payload) d hitPoint N shadowPointOrig ls (a, s)
              = (foldl (+) a (map diffuse ls), foldl (+) s (map specular ls))"
    unfolding diffuse_def specular_def occluded_def lightDir_def
    by (rule light_loop_sums)
next
  have loop: "light_loop scene (hit_obj payload) d hitPoint N shadowPointOrig
                (lights scene) (0, 0)
              = (foldl (+) 0 (map diffuse (lights scene)),
                 foldl (+) 0 (map specular (lights scene)))"
    unfolding diffuse_def specular_def occluded_def lightDir_def
    using assms(11) by (rule light_loop_sums)
  have ph: "phong scene (hit_obj payload) d hitPoint N st =
              mul_scalar (foldl (+) 0 (map diffuse (lights scene))
                            * evalDiffuseColor (hit_obj payload) st) (Kd (hit_obj payload))
              + mul_scalar (foldl (+) 0 (map specular (lights scene)))
                  (Ks (hit_obj payload))"
    unfolding phong_def Let_def shadowPointOrig_def [symmetric] loop by simp
  have within: "\<not> maxDepth scene < depth" using assms(7) by simp
  have "castRay orig (Some d) scene depth = Inr (phong scene (hit_obj payload) d hitPoint N st)"
    using assms(10)
    by (subst castRay.simps) (simp add: within assms(8,9) hitPoint_def)
  with ph show "castRay orig (Some d) scene depth =
           Inr (mul_scalar (foldl (+) 0 (map diffuse (lights scene))
                              * evalDiffuseColor (hit_obj payload) st) (Kd (hit_obj payload))
                + mul_scalar (foldl (+) 0 (map specular (lights scene)))
                    (Ks (hit_obj payload)))"
    by simp
qed

lemma normalize_up: "normalize_vec (Vector3f 0 0 5 - Vector3f 0 0 0) = Some (Vector3f 0 0 1)"
  by (simp add: normalize_vec_def length_vec_def vec_simps)

lemma shadow_ray_hit:
  "trace (Vector3f 0 0 (1 / 100000)) (Vector3f 0 0 1) (objects shadow_scene)
   = Some \<lparr>tNear = 2 - 1 / 100000, index = 0, uv = Vector2f 0 0,
           hit_obj = plane 2 DIFFUSE_AND_GLOSSY 1\<rparr>"
  by (simp add: shadow_scene_def example_scene_fields trace_def plane_intersect kInfinity_def)

lemma shadow_primary_hit:
  "trace (Vector3f 0 0 1) (Vector3f 0 0 (- 1)) (objects shadow_scene)
   = Some \<lparr>tNear = 1, index = 0, uv = Vector2f 0 0,
           hit_obj = plane 0 DIFFUSE_AND_GLOSSY 1\<rparr>"
  by (simp add: shadow_scene_def example_scene_fields trace_def plane_intersect kInfinity_gt)

lemma shadow_light_step:
  "light_step shadow_scene (plane 0 DIFFUSE_AND_GLOSSY 1) (Vector3f 0 0 (- 1))
     (Vector3f 0 0 0) (Vector3f 0 0 1) (Vector3f 0 0 (1 / 100000))
     \<lparr>position = Vector3f 0 0 5, intensity = Vector3f 1 1 1\<rparr> (0, 0)
   = (0, Vector3f 1 1 1)"
  by (simp add: light_step_def Let_def normalize_up shadow_ray_hit plane_fields
        reflect_def powf_def) (simp add: vec_simps)

lemma shadow_castRay:
  "castRay (Vector3f 0 0 1) (Some (Vector3f 0 0 (- 1))) shadow_scene 0
   = Inr (Vector3f (1 / 5) (1 / 5) (1 / 5))"
proof -
  have step: "light_loop shadow_scene (plane 0 DIFFUSE_AND_GLOSSY 1) (Vector3f 0 0 (- 1))
     (Vector3f 0 0 0) (Vector3f 0 0 1) (Vector3f 0 0 (1 / 100000)) (lights shadow_scene) (0, 0)
     = (0, Vector3f 1 1 1)"
    using shadow_light_step by (simp add: shadow_scene_def example_scene_fields)
  have orig: "(if dotProduct (Vector3f 0 0 (- 1)) (Vector3f 0 0 1) < 0
               then Vector3f 0 0 0 + mul_scalar (Vector3f 0 0 1) (epsilon shadow_scene)
               else Vector3f 0 0 0 - mul_scalar (Vector3f 0 0 1) (epsilon shadow_scene))
              = Vector3f 0 0 (1 / 100000)"
    by (simp add: shadow_scene_def example_scene_fields vec_simps)
  have ph: "phong shadow_scene (plane 0 DIFFUSE_AND_GLOSSY 1) (Vector3f 0 0 (- 1))
              (Vector3f 0 0 0) (Vector3f 0 0 1) (Vector2f 0 0)
            = Vector3f (1 / 5) (1 / 5) (1 / 5)"
    unfolding phong_def orig Let_def step by (simp add: plane_fields vec_simps)
  have md: "\<not> maxDepth shadow_scene < 0"
    by (simp add: shadow_scene_def example_scene_fields)
  have hp: "Vector3f 0 0 1 + mul_scalar (Vector3f 0 0 (- 1)) 1 = Vector3f 0 0 0"
    by (simp add: vec_simps)
  show ?thesis
    by (subst castRay.simps) (simp add: md shadow_primary_hit hp plane_fields ph)
qed

text \<open>
  Claim C1 as stated fails for the specular accumulator. On a diffuse floor whose
  only light is hidden behind a ceiling, the light is occluded, the diffuse accumulator
  stays at zero, the specular accumulator receives the light's full intensity, and the
  colour \<open>castRay\<close> returns is \<open>Ks\<close> times that intensity rather than black.
\<close>

theorem occluded_light_adds_specular:
  "normalize_vec (Vector3f 0 0 5 - Vector3f 0 0 0) = Some (Vector3f 0 0 1)
   \<and> trace (Vector3f 0 0 (1 / 100000)) (Vector3f 0 0 1) (objects shadow_scene)
       = Some \<lparr>tNear = 2 - 1 / 100000, index = 0, uv = Vector2f 0 0,
               hit_obj = plane 2 DIFFUSE_AND_GLOSSY 1\<rparr>
   \<and> (2 - 1 / 100000) * (2 - 1 / 100000)
       < dotProduct (Vector3f 0 0 5 - Vector3f 0 0 0) (Vector3f 0 0 5 - Vector3f 0 0 0)
   \<and> light_step shadow_scene (plane 0 DIFFUSE_AND_GLOSSY 1) (Vector3f 0 0 (- 1))
        (Vector3f 0 0 0) (Vector3f 0 0 1) (Vector3f 0 0 (1 / 100000))
        \<lparr>position = Vector3f 0 0 5, intensity = Vector3f 1 1 1\<rparr> (0, 0)
       = (0, Vector3f 1 1 1)
   \<and> castRay (Vector3f 0 0 1) (Some (Vector3f 0 0 (- 1))) shadow_scene 0
       = Inr (Vector3f (1 / 5) (1 / 5) (1 / 5))"
  using normalize_up shadow_ray_hit shadow_light_step shadow_castRay
  by (simp add: vec_simps)

lemma two_light_primary_hit:
  "trace (Vector3f 0 0 1) (Vector3f 0 0 (- 1)) (objects two_light_scene)
   = Some \<lparr>tNear = 1, index = 0, uv = Vector2f 0 0,
           hit_obj = plane 0 DIFFUSE_AND_GLOSSY 1\<rparr>"
  by (simp add: two_light_scene_def example_scene_fields trace_def plane_intersect
        kInfinity_gt)

lemma two_light_shadow_hit:
  "trace (Vector3f 0 0 (1 / 100000)) (Vector3f 0 0 1) (objects two_light_scene)
   = Some \<lparr>tNear = 2 - 1 / 100000, index = 0, uv = Vector2f 0 0,
           hit_obj = plane 2 DIFFUSE_AND_GLOSSY 1\<rparr>"
  by (simp add: two_light_scene_def example_scene_fields trace_def plane_intersect
        kInfinity_def)

text \<open>
  Claim C1 on the floor with two lights, the first behind the ceiling and the second
  under it: the diffuse accumulator ends with the second light's intensity, the
  specular accumulator with the sum of both.
\<close>

theorem default_branch_colour_witness:
  "0 \<le> maxDepth two_light_scene
   \<and> trace (Vector3f 0 0 1) (Vector3f 0 0 (- 1)) (objects two_light_scene)
       = Some \<lparr>tNear = 1, index = 0, uv = Vector2f 0 0,
               hit_obj = plane 0 DIFFUSE_AND_GLOSSY 1\<rparr>
   \<and> lights two_light_scene
       = [\<lparr>position = Vector3f 0 0 5, intensity = Vector3f 1 1 1\<rparr>,
          \<lparr>position = Vector3f 0 0 1, intensity = Vector3f 1 1 1\<rparr>]
   \<and> (2 - 1 / 100000) * (2 - 1 / 100000) < (25::real)
   \<and> \<not> (2 - 1 / 100000) * (2 - 1 / 100000) < (1::real)
   \<and> light_loop two_light_scene (plane 0 DIFFUSE_AND_GLOSSY 1) (Vector3f 0 0 (- 1))
        (Vector3f 0 0 0) (Vector3f 0 0 1) (Vector3f 0 0 (1 / 100000))
        (lights two_light_scene) (0, 0)
       = (Vector3f 1 1 1, Vector3f 2 2 2)
   \<and> castRay (Vector3f 0 0 1) (Some (Vector3f 0 0 (- 1))) two_light_scene 0
       = Inr (Vector3f (4 / 5) (4 / 5) (4 / 5))"
proof -
  let ?p = "\<lparr>tNear = 1, index = 0, uv = Vector2f 0 0,
             hit_obj = plane 0 DIFFUSE_AND_GLOSSY 1\<rparr>"
  have within: "0 \<le> maxDepth two_light_scene"
    and ls: "lights two_light_scene
       = [\<lparr>position = Vector3f 0 0 5, intensity = Vector3f 1 1 1\<rparr>,
          \<lparr>position = Vector3f 0 0 1, intensity = Vector3f 1 1 1\<rparr>]"
    and eps: "epsilon two_light_scene = 1 / 100000"
    by (simp_all add: two_light_scene_def example_scene_fields)
  have kind: "materialType (hit_obj ?p) = DIFFUSE_AND_GLOSSY"
    by (simp add: plane_fields)
  have sp: "getSurfaceProperties (hit_obj ?p)
              (Vector3f 0 0 1 + mul_scalar (Vector3f 0 0 (- 1)) (tNear ?p))
              (Vector3f 0 0 (- 1)) (index ?p) (uv ?p) = (Vector3f 0 0 1, Vector2f 0 0)"
    by (simp add: plane_fields)
  have away: "\<forall>light \<in> set (lights two_light_scene).
      position light \<noteq> Vector3f 0 0 1 + mul_scalar (Vector3f 0 0 (- 1)) (tNear ?p)"
    by (simp add: ls vec_simps)
  have hp: "Vector3f 0 0 1 + mul_scalar (Vector3f 0 0 (- 1)) 1 = Vector3f 0 0 0"
    and sh: "Vector3f 0 0 0 + mul_scalar (Vector3f 0 0 1) (1 / 100000)
             = Vector3f 0 0 (1 / 100000)"
    and d5: "div_scalar (Vector3f 0 0 5 - Vector3f 0 0 0)
               (length_vec (Vector3f 0 0 5 - Vector3f 0 0 0)) = Vector3f 0 0 1"
    and d1: "div_scalar (Vector3f 0 0 1 - Vector3f 0 0 0)
               (length_vec (Vector3f 0 0 1 - Vector3f 0 0 0)) = Vector3f 0 0 1"
    and l5: "dotProduct (Vector3f 0 0 5 - Vector3f 0 0 0) (Vector3f 0 0 5 - Vector3f 0 0 0) = 25"
    and l1: "dotProduct (Vector3f 0 0 1 - Vector3f 0 0 0) (Vector3f 0 0 1 - Vector3f 0 0 0) = 1"
    and dn: "dotProduct (Vector3f 0 0 (- 1)) (Vector3f 0 0 1) < 0"
    and up: "dotProduct (Vector3f 0 0 1) (Vector3f 0 0 1) = 1"
    and sb: "- dotProduct (reflect (- Vector3f 0 0 1) (Vector3f 0 0 1)) (Vector3f 0 0 (- 1)) = 1"
    by (simp_all add: length_vec_def reflect_def vec_simps)
  note facts = default_branch_colour [OF within two_light_primary_hit kind sp away]
  have loop: "light_loop two_light_scene (plane 0 DIFFUSE_AND_GLOSSY 1)
        (Vector3f 0 0 (- 1)) (Vector3f 0 0 0) (Vector3f 0 0 1) (Vector3f 0 0 (1 / 100000))
        (lights two_light_scene) (0, 0)
       = (Vector3f 1 1 1, Vector3f 2 2 2)"
    using facts [THEN conjunct1, THEN spec, THEN spec, THEN spec, THEN mp, OF away, of 0 0]
    by (simp add: hp eps dn sh ls d5 d1 l5 l1 up sb two_light_shadow_hit plane_fields powf_def)
       (simp add: vec_simps)
  have colour: "castRay (Vector3f 0 0 1) (Some (Vector3f 0 0 (- 1))) two_light_scene 0
       = Inr (Vector3f (4 / 5) (4 / 5) (4 / 5))"
    using facts [THEN conjunct2]
    by (simp add: hp eps dn sh ls d5 d1 l5 l1 up sb two_light_shadow_hit plane_fields powf_def)
       (simp add: vec_simps)
  from within two_light_primary_hit ls loop colour show ?thesis by simp
qed

subsection \<open>The reflective branches\<close>

lemma mirror_self_hit:
  "trace (Vector3f 0 0 (- (1 / 100000))) (Vector3f 0 0 1) (objects mirror_scene)
   = Some \<lparr>tNear = 1 / 100000, index = 0, uv = Vector2f 0 0, hit_obj = plane 0 REFLECTION 3\<rparr>"
  by (simp add: mirror_scene_def example_scene_fields trace_def plane_intersect kInfinity_def)

lemma mirror_depth_1:
  "castRay (Vector3f 0 0 (- (1 / 100000))) (Some (Vector3f 0 0 1)) mirror_scene 1
   = Inr (Vector3f 0 0 0)"
proof -
  have md: "\<not> maxDepth mirror_scene < 1" and deep: "maxDepth mirror_scene < 2"
    and small: "(1::int) \<noteq> INT_MAX"
    by (simp_all add: mirror_scene_def example_scene_fields INT_MAX_def)
  show ?thesis
    by (subst castRay.simps)
       (simp add: md small mirror_self_hit plane_fields castRay_beyond_depth [OF deep]
          mul_scalar_zero_vec Let_def)
qed

lemma mirror_depth_0:
  "castRay (Vector3f 0 0 1) (Some (Vector3f 0 0 (- 1))) mirror_scene 0 = Inr (Vector3f 0 0 0)"
proof -
  have md: "\<not> maxDepth mirror_scene < 0" and eps: "epsilon mirror_scene = 1 / 100000"
    and small: "(0::int) \<noteq> INT_MAX"
    by (simp_all add: mirror_scene_def example_scene_fields INT_MAX_def)
  show ?thesis
    by (subst castRay.simps)
       (simp add: md small mirror_hit plane_fields reflect_straight_down eps
          mirror_depth_1 Let_def vec_simps)
qed

lemma mirror_fresnel: "fresnel (Vector3f 0 0 (- 1)) (Vector3f 0 0 1) 3 = 1 / 4"
  by (simp add: fresnel_def clamp_def vec_simps power2_eq_square)

text \<open>The same hit on a surface of the reflective and refractive kind.\<close>

lemma glass_straight_hit:
  "trace (Vector3f 0 0 1) (Vector3f 0 0 (- 1)) (objects glass_scene)
   = Some \<lparr>tNear = 1, index = 0, uv = Vector2f 0 0,
           hit_obj = plane 0 REFLECTION_AND_REFRACTION (1 / 2)\<rparr>"
  by (simp add: glass_scene_def example_scene_fields trace_def plane_intersect kInfinity_gt)

lemma normalize_unit_z: "normalize_vec (Vector3f 0 0 1) = Some (Vector3f 0 0 1)"
  by (simp add: normalize_vec_def length_vec_def vec_simps)

lemma glass_straight_call:
  "castRay_rel (Vector3f 0 0 (1 / 100000), Some (Vector3f 0 0 1), glass_scene, 1)
     (Vector3f 0 0 1, Some (Vector3f 0 0 (- 1)), glass_scene, 0)"
proof -
  have "castRay_rel
     (if dot_negative (normalize_vec (reflect (Vector3f 0 0 (- 1)) (Vector3f 0 0 1)))
           (Vector3f 0 0 1)
      then (Vector3f 0 0 1 + mul_scalar (Vector3f 0 0 (- 1)) 1)
             - mul_scalar (Vector3f 0 0 1) (epsilon glass_scene)
      else (Vector3f 0 0 1 + mul_scalar (Vector3f 0 0 (- 1)) 1)
             + mul_scalar (Vector3f 0 0 1) (epsilon glass_scene),
      normalize_vec (reflect (Vector3f 0 0 (- 1)) (Vector3f 0 0 1)), glass_scene, 0 + 1)
     (Vector3f 0 0 1, Some (Vector3f 0 0 (- 1)), glass_scene, 0)"
    by (rule castRay_rel.intros(1)
          [OF _ refl glass_straight_hit _ refl _ _ refl refl refl refl])
       (simp_all add: glass_scene_def example_scene_fields plane_fields)
  then show ?thesis
    by (simp add: reflect_straight_down normalize_unit_z dot_negative_def
          glass_scene_def example_scene_fields vec_simps)
qed

text \<open>
  Claim C2 says that the Reflective-only branch offsets the origin of the reflection
  ray as the Reflective+Refractive branch does, to the side of the surface the reflected
  direction points toward. The code has the two signs exchanged in the Reflective-only
  branch. A ray straight down onto a mirror floor is reflected straight up; the
  recursive call starts below the floor, at \<open>(0, 0, -epsilon)\<close>, where the
  Reflective+Refractive branch starts it above, at \<open>(0, 0, epsilon)\<close>, for the same
  hit, normal and reflected direction. From below, the reflected ray hits the mirror
  itself at distance \<open>epsilon\<close>, and the pixel is black instead of a quarter (the
  Fresnel term) of the white background.
\<close>

theorem reflection_origin_behind_mirror:
  "reflect (Vector3f 0 0 (- 1)) (Vector3f 0 0 1) = Vector3f 0 0 1
   \<and> castRay_rel (Vector3f 0 0 (- (1 / 100000)), Some (Vector3f 0 0 1), mirror_scene, 1)
        (Vector3f 0 0 1, Some (Vector3f 0 0 (- 1)), mirror_scene, 0)
   \<and> castRay_rel (Vector3f 0 0 (1 / 100000), Some (Vector3f 0 0 1), glass_scene, 1)
        (Vector3f 0 0 1, Some (Vector3f 0 0 (- 1)), glass_scene, 0)
   \<and> trace (Vector3f 0 0 (- (1 / 100000))) (Vector3f 0 0 1) (objects mirror_scene)
       = Some \<lparr>tNear = 1 / 100000, index = 0, uv = Vector2f 0 0,
               hit_obj = plane 0 REFLECTION 3\<rparr>
   \<and> fresnel (Vector3f 0 0 (- 1)) (Vector3f 0 0 1) 3 = 1 / 4
   \<and> backgroundColor mirror_scene = Vector3f 1 1 1
   \<and> castRay (Vector3f 0 0 1) (Some (Vector3f 0 0 (- 1))) mirror_scene 0
       = Inr (Vector3f 0 0 0)"
  using reflect_straight_down mirror_call glass_straight_call mirror_self_hit mirror_fresnel
    mirror_depth_0
  by (simp add: mirror_scene_def example_scene_fields)



subsection \<open>Unit directions\<close>

lemma sum_squares3_zero:
  "(a::real) * a + b * b + c * c = 0 \<longleftrightarrow> a = 0 \<and> b = 0 \<and> c = 0"
proof
  assume z: "a * a + b * b + c * c = 0"
  have "0 \<le> a * a" "0 \<le> b * b" "0 \<le> c * c" by simp_all
  with z have "a * a = 0" "b * b = 0" "c * c = 0" by linarith+
  then show "a = 0 \<and> b = 0 \<and> c = 0" by simp
qed simp

lemma length_vec_zero_iff: "length_vec v = 0 \<longleftrightarrow> v = 0"
  by (cases v) (simp add: length_vec_def zero_Vector3f_def sum_squares3_zero)

lemma normalize_vec_None_iff: "normalize_vec v = None \<longleftrightarrow> v = 0"
  by (simp add: normalize_vec_def length_vec_zero_iff)

lemma normalize_vec_zero: "normalize_vec 0 = None" "normalize_vec (Vector3f 0 0 0) = None"
  by (simp_all add: normalize_vec_None_iff zero_Vector3f_def)

lemma length_vec_square:
  "length_vec v * length_vec v = vx v * vx v + vy v * vy v + vz v * vz v"
  by (simp add: length_vec_def)

lemma length_normalized:
  assumes "normalize_vec v = Some u"
  shows "length_vec u = 1"
proof -
  let ?l = "length_vec v"
  from assms have nz: "?l \<noteq> 0" and u: "u = div_scalar v ?l"
    by (auto simp: normalize_vec_def split: if_splits)
  have "vx u * vx u + vy u * vy u + vz u * vz u
        = (vx v * vx v + vy v * vy v + vz v * vz v) / (?l * ?l)"
    by (simp add: u div_scalar_def add_divide_distrib)
  also have "\<dots> = 1"
    using nz by (simp add: length_vec_square [symmetric])
  finally show ?thesis
    by (simp add: length_vec_def)
qed

lemma length_reflect:
  assumes "length_vec d = 1" and "length_vec N = 1"
  shows "length_vec (reflect d N) = 1"
proof -
  from assms have dd: "vx d * vx d + vy d * vy d + vz d * vz d = 1"
    and nn: "vx N * vx N + vy N * vy N + vz N * vz N = 1"
    by (simp_all add: length_vec_def)
  let ?k = "dotProduct d N"
  let ?r = "reflect d N"
  have "vx ?r * vx ?r + vy ?r * vy ?r + vz ?r * vz ?r
        = (vx d * vx d + vy d * vy d + vz d * vz d) - 4 * ?k * ?k
          + 4 * ?k * ?k * (vx N * vx N + vy N * vy N + vz N * vz N)"
    by (simp add: reflect_def vec_simps algebra_simps)
  also have "\<dots> = 1" by (simp add: dd nn)
  finally show ?thesis by (simp add: length_vec_def)
qed

lemma normalize_unit:
  assumes "length_vec v = 1"
  shows "\<exists>u. normalize_vec v = Some u \<and> length_vec u = 1"
proof (cases "normalize_vec v")
  case None
  with assms show ?thesis by (simp add: normalize_vec_def)
next
  case (Some u)
  then show ?thesis by (simp add: length_normalized)
qed

text \<open>
  What the two reflective branches pass on. For a unit incoming direction and a unit
  normal the reflected direction is a unit vector, so the Reflective+Refractive branch
  normalises it to itself and the Reflective-only branch, which does not normalise,
  passes a unit vector all the same. The refraction direction is a unit vector
  whenever \<open>refract\<close> returns a non-zero vector.
\<close>

lemma reflection_direction_unit:
  assumes "length_vec d = 1" and "length_vec N = 1"
  shows "normalize_vec (reflect d N) = Some (reflect d N)"
    and "length_vec (reflect d N) = 1"
proof -
  show unit: "length_vec (reflect d N) = 1"
    using assms by (rule length_reflect)
  then show "normalize_vec (reflect d N) = Some (reflect d N)"
    by (cases "reflect d N") (simp add: normalize_vec_def div_scalar_def)
qed

lemma refraction_direction_unit:
  assumes "refract d N eta \<noteq> 0"
  shows "\<exists>v. normalize_vec (refract d N eta) = Some v \<and> length_vec v = 1"
proof (cases "normalize_vec (refract d N eta)")
  case None
  with assms show ?thesis by (simp add: normalize_vec_None_iff)
next
  case (Some v)
  then show ?thesis by (simp add: length_normalized)
qed

lemma castRay_reflection_branch:
  assumes "depth \<le> maxDepth scene" and "depth \<noteq> INT_MAX"
    and "trace orig d (objects scene) = Some payload"
    and "materialType (hit_obj payload) = REFLECTION"
    and "getSurfaceProperties (hit_obj payload) (orig + mul_scalar d (tNear payload)) d
           (index payload) (uv payload) = (N, st)"
  shows "castRay orig (Some d) scene depth =
     (case castRay
             (if dotProduct (reflect d N) N < 0
              then orig + mul_scalar d (tNear payload) + mul_scalar N (epsilon scene)
              else orig + mul_scalar d (tNear payload) - mul_scalar N (epsilon scene))
             (Some (reflect d N)) scene (depth + 1) of
        Inl e \<Rightarrow> Inl e
      | Inr reflC \<Rightarrow> Inr (mul_scalar reflC (fresnel d N (ior (hit_obj payload)))))"
proof -
  from assms(1) have "\<not> maxDepth scene < depth" by simp
  with assms(2-5) show ?thesis
    by (subst castRay.simps) (simp add: Let_def)
qed

lemma castRay_refraction_branch:
  assumes "depth \<le> maxDepth scene" and "depth \<noteq> INT_MAX"
    and "trace orig d (objects scene) = Some payload"
    and "materialType (hit_obj payload) = REFLECTION_AND_REFRACTION"
    and "getSurfaceProperties (hit_obj payload) (orig + mul_scalar d (tNear payload)) d
           (index payload) (uv payload) = (N, st)"
  shows "castRay orig (Some d) scene depth =
     (case castRay
             (if dot_negative (normalize_vec (reflect d N)) N
              then orig + mul_scalar d (tNear payload) - mul_scalar N (epsilon scene)
              else orig + mul_scalar d (tNear payload) + mul_scalar N (epsilon scene))
             (normalize_vec (reflect d N)) scene (depth + 1) of
        Inl e \<Rightarrow> Inl e
      | Inr reflC \<Rightarrow>
          (case castRay
                  (if dot_negative (normalize_vec (refract d N (ior (hit_obj payload)))) N
                   then orig + mul_scalar d (tNear payload) - mul_scalar N (epsilon scene)
                   else orig + mul_scalar d (tNear payload) + mul_scalar N (epsilon scene))
                  (normalize_vec (refract d N (ior (hit_obj payload)))) scene (depth + 1) of
             Inl e \<Rightarrow> Inl e
           | Inr refrC \<Rightarrow>
               Inr (mul_scalar reflC (fresnel d N (ior (hit_obj payload)))
                    + mul_scalar refrC (1 - fresnel d N (ior (hit_obj payload))))))"
proof -
  from assms(1) have "\<not> maxDepth scene < depth" by simp
  with assms(2-5) show ?thesis
    by (subst castRay.simps) (simp add: Let_def)
qed

text \<open>
  Whenever the discriminant is negative, \<open>refract\<close> returns the zero vector and
  the refraction direction of \<open>castRay\<close> is the NaN vector.
\<close>

lemma refract_negative_discriminant:
  assumes "1 - 1 / eta * 1 / eta
             * (1 - \<bar>clamp (- 1) 1 (dotProduct I N)\<bar> * \<bar>clamp (- 1) 1 (dotProduct I N)\<bar>) < 0"
  shows "refract I N eta = 0" and "normalize_vec (refract I N eta) = None"
proof -
  from assms show zero: "refract I N eta = 0"
    by (simp add: refract_def Let_def)
  then show "normalize_vec (refract I N eta) = None"
    by (simp add: normalize_vec_zero)
qed

text \<open>A ray that meets the glass floor beyond the critical angle.\<close>

lemma glass_oblique_hit:
  "trace (Vector3f 0 0 1) (Vector3f (3 / 5) 0 (- (4 / 5))) (objects glass_scene)
   = Some \<lparr>tNear = 5 / 4, index = 0, uv = Vector2f 0 0,
           hit_obj = plane 0 REFLECTION_AND_REFRACTION (1 / 2)\<rparr>"
  by (simp add: glass_scene_def example_scene_fields trace_def plane_intersect kInfinity_def)

lemma oblique_unit:
  "length_vec (Vector3f (3 / 5) 0 (- (4 / 5))) = 1" "length_vec (Vector3f 0 0 1) = 1"
  "length_vec (Vector3f (3 / 5) 0 (4 / 5)) = 1"
  by (simp_all add: length_vec_def)

lemma oblique_reflect:
  "reflect (Vector3f (3 / 5) 0 (- (4 / 5))) (Vector3f 0 0 1) = Vector3f (3 / 5) 0 (4 / 5)"
  by (simp add: reflect_def vec_simps)

lemma oblique_refract:
  "refract (Vector3f (3 / 5) 0 (- (4 / 5))) (Vector3f 0 0 1) (1 / 2) = 0"
  by (simp add: refract_def clamp_def Let_def vec_simps)

lemma oblique_normalize_reflect:
  "normalize_vec (Vector3f (3 / 5) 0 (4 / 5)) = Some (Vector3f (3 / 5) 0 (4 / 5))"
  by (simp add: normalize_vec_def oblique_unit div_scalar_def)

lemma oblique_hit_point:
  "Vector3f 0 0 1 + mul_scalar (Vector3f (3 / 5) 0 (- (4 / 5))) (5 / 4) = Vector3f (3 / 4) 0 0"
  by (simp add: vec_simps)

lemma glass_epsilon: "epsilon glass_scene = 1 / 100000"
  by (simp add: glass_scene_def example_scene_fields)

lemma glass_oblique_reflect_call:
  "castRay_rel (Vector3f (3 / 4) 0 (1 / 100000), Some (Vector3f (3 / 5) 0 (4 / 5)),
                glass_scene, 1)
     (Vector3f 0 0 1, Some (Vector3f (3 / 5) 0 (- (4 / 5))), glass_scene, 0)"
proof -
  let ?d = "Vector3f (3 / 5) 0 (- (4 / 5))" and ?N = "Vector3f 0 0 1"
  let ?hp = "Vector3f 0 0 1 + mul_scalar ?d (5 / 4)"
  have "castRay_rel
     (if dot_negative (normalize_vec (reflect ?d ?N)) ?N
      then ?hp - mul_scalar ?N (epsilon glass_scene)
      else ?hp + mul_scalar ?N (epsilon glass_scene),
      normalize_vec (reflect ?d ?N), glass_scene, 0 + 1)
     (Vector3f 0 0 1, Some ?d, glass_scene, 0)"
    by (rule castRay_rel.intros(1)
          [OF _ refl glass_oblique_hit _ refl _ _ refl refl refl refl])
       (simp_all add: glass_scene_def example_scene_fields plane_fields)
  then show ?thesis
    by (simp add: oblique_reflect oblique_normalize_reflect oblique_hit_point
          dot_negative_def glass_epsilon vec_simps)
qed

lemma glass_oblique_refract_call:
  "castRay_rel (Vector3f (3 / 4) 0 (1 / 100000), None, glass_scene, 1)
     (Vector3f 0 0 1, Some (Vector3f (3 / 5) 0 (- (4 / 5))), glass_scene, 0)"
proof -
  let ?d = "Vector3f (3 / 5) 0 (- (4 / 5))" and ?N = "Vector3f 0 0 1"
  let ?hp = "Vector3f 0 0 1 + mul_scalar ?d (5 / 4)"
  let ?p = "\<lparr>tNear = 5 / 4, index = 0, uv = Vector2f 0 0,
             hit_obj = plane 0 REFLECTION_AND_REFRACTION (1 / 2)\<rparr>"
  have "castRay_rel
     (if dot_negative (normalize_vec (refract ?d ?N (ior (hit_obj ?p)))) ?N
      then ?hp - mul_scalar ?N (epsilon glass_scene)
      else ?hp + mul_scalar ?N (epsilon glass_scene),
      normalize_vec (refract ?d ?N (ior (hit_obj ?p))), glass_scene, 0 + 1)
     (Vector3f 0 0 1, Some ?d, glass_scene, 0)"
    by (rule castRay_rel.intros(2)
          [OF _ refl glass_oblique_hit _ refl _ _ refl refl refl refl refl])
       (simp_all add: glass_scene_def example_scene_fields plane_fields)
  then show ?thesis
    by (simp add: plane_fields oblique_refract normalize_vec_zero oblique_hit_point
          dot_negative_def glass_epsilon vec_simps)
qed

lemma glass_reflection_miss:
  "trace (Vector3f (3 / 4) 0 (1 / 100000)) (Vector3f (3 / 5) 0 (4 / 5)) (objects glass_scene)
   = None"
  by (simp add: glass_scene_def example_scene_fields trace_def plane_intersect)

lemma glass_oblique_castRay:
  "castRay (Vector3f 0 0 1) (Some (Vector3f (3 / 5) 0 (- (4 / 5)))) glass_scene 0
   = Inl NaNDirection"
proof -
  have md: "\<not> maxDepth glass_scene < 0" "\<not> maxDepth glass_scene < 1"
    and eps: "epsilon glass_scene = 1 / 100000" and small: "(0::int) \<noteq> INT_MAX"
    by (simp_all add: glass_scene_def example_scene_fields INT_MAX_def)
  have orig: "Vector3f (3 / 4) 0 0 + mul_scalar (Vector3f 0 0 1) (1 / 100000)
              = Vector3f (3 / 4) 0 (1 / 100000)"
    by (simp add: vec_simps)
  have dots: "\<not> dotProduct (Vector3f (3 / 5) 0 (4 / 5)) (Vector3f 0 0 1) < 0"
    by (simp add: vec_simps)
  show ?thesis
    by (subst castRay.simps)
       (simp add: md small glass_oblique_hit plane_fields oblique_hit_point oblique_reflect
          oblique_refract oblique_normalize_reflect normalize_vec_zero dot_negative_def
          dots eps orig Let_def castRay_NaN castRay_background glass_reflection_miss)
qed

text \<open>
  Claim C7 says that every direction passed into a recursive \<open>castRay\<close> call is
  unit length for a unit incoming direction and a unit normal. The code normalises the
  refraction direction without testing for the zero vector that \<open>refract\<close> returns
  under total internal reflection: on the glass floor the incoming direction and the
  normal are unit vectors, and the direction of the recursive call for the refraction
  ray is the NaN vector.
\<close>

theorem refraction_direction_not_unit:
  "length_vec (Vector3f (3 / 5) 0 (- (4 / 5))) = 1
   \<and> getSurfaceProperties (plane 0 REFLECTION_AND_REFRACTION (1 / 2)) (Vector3f (3 / 4) 0 0)
        (Vector3f (3 / 5) 0 (- (4 / 5))) 0 (Vector2f 0 0) = (Vector3f 0 0 1, Vector2f 0 0)
   \<and> length_vec (Vector3f 0 0 1) = 1
   \<and> ior (plane 0 REFLECTION_AND_REFRACTION (1 / 2)) = 1 / 2
   \<and> castRay_rel (Vector3f (3 / 4) 0 (1 / 100000), None, glass_scene, 1)
        (Vector3f 0 0 1, Some (Vector3f (3 / 5) 0 (- (4 / 5))), glass_scene, 0)"
  using oblique_unit glass_oblique_refract_call by (simp add: plane_fields)

text \<open>
  Claim C3 says that under total internal reflection the refraction contribution is the
  zero vector and no undefined value arises. On the glass floor with \<open>ior = 1/2\<close>,
  a unit direction with \<open>cosi = 4/5\<close> makes the discriminant negative and
  \<open>refract\<close> returns the zero vector; \<open>castRay\<close> normalises it, which divides
  zero by zero, and calls itself with the NaN direction at depth 1, within the
  maximum depth. The colour it blends as the refraction colour is the result of that
  call, the colour of a ray without a direction, and not zero.
\<close>

theorem total_internal_reflection_NaN:
  "length_vec (Vector3f 0 0 1) = 1
   \<and> \<bar>clamp (- 1) 1 (dotProduct (Vector3f (3 / 5) 0 (- (4 / 5))) (Vector3f 0 0 1))\<bar> = 4 / 5
   \<and> 1 - 1 / (1 / 2) * 1 / (1 / 2) * (1 - (4 / 5) * (4 / 5)) < (0::real)
   \<and> refract (Vector3f (3 / 5) 0 (- (4 / 5))) (Vector3f 0 0 1) (1 / 2) = Vector3f 0 0 0
   \<and> normalize_vec (refract (Vector3f (3 / 5) 0 (- (4 / 5))) (Vector3f 0 0 1) (1 / 2)) = None
   \<and> castRay_rel (Vector3f (3 / 4) 0 (1 / 100000), None, glass_scene, 1)
        (Vector3f 0 0 1, Some (Vector3f (3 / 5) 0 (- (4 / 5))), glass_scene, 0)
   \<and> castRay (Vector3f 0 0 1) (Some (Vector3f (3 / 5) 0 (- (4 / 5)))) glass_scene 0
       = Inl NaNDirection"
  using oblique_unit(2) oblique_refract glass_oblique_refract_call glass_oblique_castRay
  by (simp add: normalize_vec_zero clamp_def dotProduct_def) (simp add: zero_Vector3f_def)

section \<open>Properties of the image writers\<close>

lemma float_to_char_byte:
  assumes "0 \<le> f" and "f \<le> 255"
  shows "unat (float_to_char f) = nat \<lfloor>f\<rfloor>"
proof -
  from assms have lo: "0 \<le> \<lfloor>f\<rfloor>" and hi: "\<lfloor>f\<rfloor> < 256"
    by (simp_all add: floor_less_iff)
  from assms(1) have "float_to_char f = word_of_int \<lfloor>f\<rfloor>"
    by (simp add: float_to_char_def)
  then have "uint (float_to_char f) = \<lfloor>f\<rfloor> mod 256"
    by (simp add: uint_word_of_int)
  with lo hi have "uint (float_to_char f) = \<lfloor>f\<rfloor>" by simp
  then show ?thesis by (simp add: unat_eq_nat_uint)
qed

lemma clamp_unit_range: "0 \<le> 255 * clamp 0 1 x" "255 * clamp 0 1 x \<le> 255"
  by (simp_all add: clamp_def)

text \<open>
  The writer of Renderer.hpp clamps: each byte is \<open>clamp(color, 0, 1) * 255\<close>,
  truncated.
\<close>

lemma color_bytes_clamped:
  "map unat (color_bytes c) =
     [nat \<lfloor>255 * clamp 0 1 (vx c)\<rfloor>, nat \<lfloor>255 * clamp 0 1 (vy c)\<rfloor>,
      nat \<lfloor>255 * clamp 0 1 (vz c)\<rfloor>]"
  by (simp add: color_bytes_def float_to_char_byte clamp_unit_range)

text \<open>
  Claim C9 says that each channel byte in the file is \<open>clamp(color, 0, 1) * 255\<close>
  truncated to an integer. The second renderer multiplies by 255 and converts without
  clamping. For the shaded colour \<open>(2, 1/2, 0)\<close> the claim's bytes, and those of
  Renderer.hpp, are 255, 127, 0; the second renderer writes 254, 127, 0, the low byte
  of 510 in the first channel.
\<close>

theorem unclamped_pixel_bytes:
  "map unat (color_bytes (Vector3f 2 (1 / 2) 0)) = [255, 127, 0]
   \<and> nat \<lfloor>255 * clamp 0 1 2\<rfloor> = 255
   \<and> map unat (field_bytes (stored_color (Vector3f 2 (1 / 2) 0))) = [254, 127, 0]
   \<and> write_image True [[stored_color (Vector3f 2 (1 / 2) 0)]]
       = FileWritten 1 1 [254, 127, 0]"
  by (simp add: color_bytes_clamped clamp_def field_bytes_def stored_color_def mul_scalar_def
        float_to_char_def write_image_def write_ppm_header_def write_ppm_data_def)

text \<open>
  Claim C10 says that a file that cannot be opened is surfaced to the caller as a fatal
  error. The second renderer throws. Renderer.hpp does not test the result of
  \<open>fopen\<close>: it hands the null stream to \<open>fprintf\<close>, \<open>fwrite\<close> and
  \<open>fclose\<close>, and nothing is reported to the caller.
\<close>

theorem unopened_file_unchecked:
  "save_framebuffer False scene framebuffer = NullStream
   \<and> write_image False (row # rows) = Thrown ''write header error:file cannot open''"
  by (simp add: save_framebuffer_def write_image_def write_ppm_header_def)

end
